theory Spec2Isabelle
  imports Main "HOL-Library.Sublist"
begin

section \<open>Strings and numbers as the JavaScript runtime handles them\<close>

text \<open>
  \<open>String.prototype.endsWith\<close>, \<open>String.prototype.includes\<close> (here \<open>str_includes\<close>),
  \<open>Array.prototype.join\<close> on strings, the insertion that \<open>Array.prototype.splice\<close>
  performs when it deletes nothing (a start index beyond the end inserts at the end), and
  the decimal rendering of a non-negative integer inside a template literal.
\<close>

definition endsWith :: "string \<Rightarrow> string \<Rightarrow> bool" where
  "endsWith s suf = (length suf \<le> length s \<and> drop (length s - length suf) s = suf)"

fun str_includes :: "string \<Rightarrow> string \<Rightarrow> bool" where
  "str_includes [] pat = (pat = [])"
| "str_includes (c # cs) pat = (take (length pat) (c # cs) = pat \<or> str_includes cs pat)"

fun joinWith :: "string \<Rightarrow> string list \<Rightarrow> string" where
  "joinWith sep [] = []"
| "joinWith sep [s] = s"
| "joinWith sep (s # t # ss) = s @ sep @ joinWith sep (t # ss)"

definition splice :: "nat \<Rightarrow> 'a list \<Rightarrow> 'a list \<Rightarrow> 'a list" where
  "splice start items xs = take start xs @ items @ drop start xs"

fun showNat :: "nat \<Rightarrow> string" where
  "showNat n =
     (if n < 10 then [''0123456789'' ! n]
      else showNat (n div 10) @ [''0123456789'' ! (n mod 10)])"

declare showNat.simps [simp del]

text \<open>
  An optional string parameter is \<open>None\<close> when the caller leaves it \<open>undefined\<close>.
  JavaScript's truthiness of such a value: \<open>undefined\<close> and the empty string are falsy.
\<close>

definition truthy :: "string option \<Rightarrow> bool" where
  "truthy v = (case v of None \<Rightarrow> False | Some s \<Rightarrow> s \<noteq> [])"

section \<open>Paths: \<open>path.join\<close> of Node.js, POSIX flavour\<close>

text \<open>
  \<open>path.join\<close> drops empty arguments, joins the rest with a slash and normalises the
  result; with nothing left it returns a single dot. Normalisation works on the segments
  between slashes: empty segments and single dots are dropped, a double dot removes the
  segment before it (or is kept in front of a relative path, when there is nothing to
  remove), and the leading and the trailing slash of the input are kept.
\<close>

fun splitPath :: "string \<Rightarrow> string list" where
  "splitPath [] = [[]]"
| "splitPath (c # cs) =
     (if c = CHR ''/'' then [] # splitPath cs
      else (case splitPath cs of [] \<Rightarrow> [[c]] | s # ss \<Rightarrow> (c # s) # ss))"

fun normalizeSegs :: "bool \<Rightarrow> string list \<Rightarrow> string list \<Rightarrow> string list" where
  "normalizeSegs allowAboveRoot res [] = res"
| "normalizeSegs allowAboveRoot res (s # ss) =
     (if s = [] \<or> s = ''.'' then normalizeSegs allowAboveRoot res ss
      else if s = ''..'' then
        (if res \<noteq> [] \<and> last res \<noteq> ''..''
           then normalizeSegs allowAboveRoot (butlast res) ss
         else if allowAboveRoot
           then normalizeSegs allowAboveRoot (res @ [''..'']) ss
         else normalizeSegs allowAboveRoot res ss)
      else normalizeSegs allowAboveRoot (res @ [s]) ss)"

definition normalizeString :: "string \<Rightarrow> bool \<Rightarrow> string" where
  "normalizeString p allowAboveRoot = joinWith ''/'' (normalizeSegs allowAboveRoot [] (splitPath p))"

definition path_normalize :: "string \<Rightarrow> string" where
  "path_normalize p =
     (if p = [] then ''.''
      else
        (let isAbsolute = (hd p = CHR ''/'');
             trailingSeparator = (last p = CHR ''/'');
             q = normalizeString p (\<not> isAbsolute)
         in if q = [] then (if isAbsolute then ''/'' else if trailingSeparator then ''./'' else ''.'')
            else (if isAbsolute then ''/'' else []) @ q @ (if trailingSeparator then ''/'' else [])))"

definition path_join :: "string \<Rightarrow> string \<Rightarrow> string" where
  "path_join a b =
     (let joined = joinWith ''/'' (filter (\<lambda>x. x \<noteq> []) [a, b])
      in if joined = [] then ''.'' else path_normalize joined)"

section \<open>The filesystem\<close>

text \<open>
  The filesystem is the list of the paths that exist, each a file or a directory. Only
  what downloadVideo observes is modelled: whether a path exists, the names directly inside
  a directory, and the moving and the recursive removal of a path together with everything
  below it. A directory listing gives each name once, sorted by the bytes of the names, as
  \<open>readdirSync\<close> of Node.js does. Renaming fails when the source is missing, when a file
  would replace a directory or a directory a file, and when a directory would replace a
  directory that is not empty; the error names the source path. A path may be listed
  without its parent directory, so creating a directory recursively adds the path itself.
  Permissions are not modelled, so a removal with \<open>force\<close> always succeeds.

  The errors are those the code can meet: an \<open>Error\<close> made with a message by the code
  itself, the syntax error of \<open>JSON.parse\<close>, and a system error of a filesystem call with
  its code and path. The code reads the message only of errors made by \<open>_spawnPromise\<close>;
  the message given here to the other two kinds is a placeholder.
\<close>

datatype node = File | Dir

type_synonym filesystem = "(string \<times> node) list"

datatype js_error =
    Error string
  | SyntaxError
  | SystemError string string

fun message :: "js_error \<Rightarrow> string" where
  "message (Error m) = m"
| "message SyntaxError = ''Unexpected token in JSON''"
| "message (SystemError code p) = code @ '': '' @ p"

definition existsSync :: "filesystem \<Rightarrow> string \<Rightarrow> bool" where
  "existsSync files p = (map_of files p \<noteq> None)"

definition below :: "string \<Rightarrow> string \<Rightarrow> bool" where
  "below d p = (p = d \<or> take (length d + 1) p = d @ ''/'')"

definition mkdirSync :: "string \<Rightarrow> filesystem \<Rightarrow> js_error + filesystem" where
  "mkdirSync p files =
     (case map_of files p of
        None \<Rightarrow> Inr (files @ [(p, Dir)])
      | Some Dir \<Rightarrow> Inr files
      | Some File \<Rightarrow> Inl (SystemError ''EEXIST'' p))"

definition entryName :: "string \<Rightarrow> string \<Rightarrow> string option" where
  "entryName d p =
     (let pre = (if endsWith d ''/'' then d else d @ ''/'');
          name = drop (length pre) p
      in if take (length pre) p = pre \<and> name \<noteq> [] \<and> CHR ''/'' \<notin> set name
         then Some name else None)"

fun strLess :: "string \<Rightarrow> string \<Rightarrow> bool" where
  "strLess [] [] = False"
| "strLess [] (d # t) = True"
| "strLess (c # s) [] = False"
| "strLess (c # s) (d # t) = ((of_char c :: nat) < of_char d \<or> (c = d \<and> strLess s t))"

fun insertName :: "string \<Rightarrow> string list \<Rightarrow> string list" where
  "insertName x [] = [x]"
| "insertName x (y # ys) = (if strLess y x then y # insertName x ys else x # y # ys)"

definition sortNames :: "string list \<Rightarrow> string list" where
  "sortNames xs = foldr insertName xs []"

definition readdirSync :: "string \<Rightarrow> filesystem \<Rightarrow> js_error + string list" where
  "readdirSync d files =
     (case map_of files d of
        None \<Rightarrow> Inl (SystemError ''ENOENT'' d)
      | Some File \<Rightarrow> Inl (SystemError ''ENOTDIR'' d)
      | Some Dir \<Rightarrow>
          Inr (sortNames (remdups (List.map_filter (entryName d) (map fst files)))))"

definition renameSync :: "string \<Rightarrow> string \<Rightarrow> filesystem \<Rightarrow> js_error + filesystem" where
  "renameSync src dst files =
     (case map_of files src of
        None \<Rightarrow> Inl (SystemError ''ENOENT'' src)
      | Some kind \<Rightarrow>
          if src = dst then Inr files
          else if kind = File \<and> map_of files dst = Some Dir
            then Inl (SystemError ''EISDIR'' src)
          else if kind = Dir \<and> map_of files dst = Some File
            then Inl (SystemError ''ENOTDIR'' src)
          else if kind = Dir \<and> list_ex (\<lambda>(q, n). below dst q \<and> q \<noteq> dst) files
            then Inl (SystemError ''ENOTEMPTY'' src)
          else Inr (filter (\<lambda>(q, n). \<not> below src q \<and> \<not> below dst q) files
                    @ map (\<lambda>(q, n). (dst @ drop (length src) q, n))
                        (filter (\<lambda>(q, n). below src q) files)))"

definition rmSync :: "string \<Rightarrow> filesystem \<Rightarrow> filesystem" where
  "rmSync p files = filter (\<lambda>(q, n). \<not> below p q) files"

section \<open>The world outside: processes, URL parsing, JSON decoding\<close>

text \<open>
  Every effect of a call is recorded, in order, in a trace next to the filesystem.
\<close>

datatype event =
    Mkdir string
  | Spawn string "string list" "string option"
  | Rename string string
  | Rm string
  | ConsoleError "string list"
  | ConsoleWarn "string list"

record world =
  files :: filesystem
  trace :: "event list"

definition emit :: "event \<Rightarrow> world \<Rightarrow> world" where
  "emit e w = w\<lparr>trace := trace w @ [e]\<rparr>"

text \<open>
  What a child process did: its exit status (\<open>None\<close> when a signal ended it and Node
  reports \<open>null\<close>), what it wrote to standard output and standard error, and the
  filesystem it left behind. Every command is taken to start and to end; a command that
  cannot be started, or never ends, is outside the model.
\<close>

record outcome =
  exit_code :: "nat option"
  stdout :: string
  stderr :: string
  files_after :: filesystem

text \<open>
  The chapter list and the title that the code reads from the JSON document printed by the
  downloader. Numbers are kept as the text that \<open>String(...)\<close> gives for them.
\<close>

record chapter_info =
  title :: string
  start_time :: string
  end_time :: string

record video_info =
  video_title :: string
  chapters :: "chapter_info list"

text \<open>
  The parts of the platform that the code calls and that are not its own are parameters:
  \<open>hostname_of\<close> is \<open>new URL(url).hostname\<close>, \<open>None\<close> when the constructor throws;
  \<open>run\<close> is the behaviour of a spawned command, given the number of effects that came
  before it, the command, its arguments, its working directory and the filesystem it
  starts in; \<open>decode_info\<close> is \<open>JSON.parse\<close> followed by the reads of \<open>title\<close> and
  \<open>chapters\<close> (an absent chapter list is the empty one), \<open>None\<close> when that throws.
\<close>

record env =
  hostname_of :: "string \<Rightarrow> string option"
  run :: "nat \<Rightarrow> string \<Rightarrow> string list \<Rightarrow> string option \<Rightarrow> filesystem \<Rightarrow> outcome"
  decode_info :: "string \<Rightarrow> video_info option"

type_synonym 'a io = "world \<Rightarrow> (js_error + 'a) \<times> world"

definition andThen :: "'a io \<Rightarrow> ('a \<Rightarrow> 'b io) \<Rightarrow> 'b io" where
  "andThen m f w = (case m w of (Inl e, w') \<Rightarrow> (Inl e, w') | (Inr x, w') \<Rightarrow> f x w')"

section \<open>utils.js\<close>

text \<open>
  \<open>validateUrl\<close> (lines 17 to 25) and \<open>isYouTubeUrl\<close> (lines 39 to 47) catch the
  exception of the URL constructor and answer with a truth value. \<open>spawnPromise\<close> is
  \<open>_spawnPromise\<close> (lines 90 to 110): the promise resolves with the two captured streams
  when the exit status is zero and is rejected with an \<open>Error\<close> otherwise. Awaiting it
  is the sequential step modelled here.
\<close>

definition validateUrl :: "env \<Rightarrow> string \<Rightarrow> bool" where
  "validateUrl ev url = (case hostname_of ev url of Some h \<Rightarrow> True | None \<Rightarrow> False)"

definition isYouTubeUrl :: "env \<Rightarrow> string \<Rightarrow> bool" where
  "isYouTubeUrl ev url =
     (case hostname_of ev url of
        Some h \<Rightarrow> str_includes h ''youtube.com'' \<or> str_includes h ''youtu.be''
      | None \<Rightarrow> False)"

definition showCode :: "nat option \<Rightarrow> string" where
  "showCode c = (case c of None \<Rightarrow> ''null'' | Some n \<Rightarrow> showNat n)"

definition failureMessage :: "outcome \<Rightarrow> string" where
  "failureMessage r =
     ''Failed with exit code: '' @ showCode (exit_code r) @ [CHR 0x0A] @
     ''Stdout: '' @ stdout r @ [CHR 0x0A] @ ''Stderr: '' @ stderr r"

definition spawnPromise :: "env \<Rightarrow> string \<Rightarrow> string list \<Rightarrow> string option \<Rightarrow> (string \<times> string) io" where
  "spawnPromise ev command args cwd w =
     (let w1 = emit (Spawn command args cwd) w;
          r = run ev (length (trace w)) command args cwd (files w);
          w2 = w1\<lparr>files := files_after r\<rparr>
      in if exit_code r = Some 0 then (Inr (stdout r, stderr r), w2)
         else (Inl (Error (failureMessage r)), w2))"

section \<open>video.ts: downloadVideo\<close>

text \<open>
  The body of downloadVideo, cut into its stages in the order of the source:
  \<open>tempDownloadDir\<close> (line 44), \<open>ensureTempDir\<close> (lines 50 to 52), \<open>selectFormat\<close>
  (lines 54 to 86, a \<open>switch\<close> with a default branch for each platform class),
  \<open>downloadArgs\<close> (lines 88 to 106), \<open>runDownload\<close> (lines 110 to 117),
  \<open>splitChapters\<close> with its loop \<open>extractChapters\<close> and loop body \<open>extractChapter\<close>
  (lines 120 to 156), \<open>moveDownloaded\<close> with its loop \<open>moveFiles\<close> (lines 159 to 170),
  and \<open>cleanup\<close>, the \<open>finally\<close> clause (lines 173 to 178). The resolution is a string,
  \<open>None\<close> when the caller leaves it out and the default \<open>720p\<close> applies.
\<close>

record file_config =
  maxFilenameLength :: nat
  downloadsDir :: string
  tempDirPrefix :: string

record config =
  file_cfg :: file_config

definition tempDownloadDir :: "config \<Rightarrow> string" where
  "tempDownloadDir cfg = path_join (downloadsDir (file_cfg cfg)) ''temp_yt_dlp_downloads''"

definition ensureTempDir :: "string \<Rightarrow> unit io" where
  "ensureTempDir tmp w =
     (if \<not> existsSync (files w) tmp then
        (case mkdirSync tmp (files w) of
           Inl e \<Rightarrow> (Inl e, w)
         | Inr fs' \<Rightarrow> (Inr (), emit (Mkdir tmp) (w\<lparr>files := fs'\<rparr>)))
      else (Inr (), w))"

definition youtubeFormat :: "string \<Rightarrow> string" where
  "youtubeFormat resolution =
     (if resolution = ''480p'' then ''bestvideo[height<=480]+bestaudio/best[height<=480]/best''
      else if resolution = ''720p'' then ''bestvideo[height<=720]+bestaudio/best[height<=720]/best''
      else if resolution = ''1080p'' then ''bestvideo[height<=1080]+bestaudio/best[height<=1080]/best''
      else if resolution = ''best'' then ''bestvideo+bestaudio/best''
      else ''bestvideo[height<=720]+bestaudio/best[height<=720]/best'')"

definition otherFormat :: "string \<Rightarrow> string" where
  "otherFormat resolution =
     (if resolution = ''480p'' then ''worst[height>=480]/best[height<=480]/worst''
      else if resolution = ''best'' then ''bestvideo+bestaudio/best''
      else ''bestvideo[height>=720]+bestaudio/best[height>=720]/best'')"

definition selectFormat :: "env \<Rightarrow> string \<Rightarrow> string \<Rightarrow> string" where
  "selectFormat ev url resolution =
     (if isYouTubeUrl ev url then youtubeFormat resolution else otherFormat resolution)"

definition resolutionOrDefault :: "string option \<Rightarrow> string" where
  "resolutionOrDefault r = (case r of None \<Rightarrow> ''720p'' | Some x \<Rightarrow> x)"

definition sectionArg :: "string \<Rightarrow> string option \<Rightarrow> string list" where
  "sectionArg flag v = (case v of None \<Rightarrow> [] | Some s \<Rightarrow> if s = [] then [] else [flag, s])"

definition downloadArgs ::
  "string \<Rightarrow> string \<Rightarrow> string option \<Rightarrow> string option \<Rightarrow> string option \<Rightarrow> string list" where
  "downloadArgs url format startTime endTime chapter =
     (let args0 = [''--progress'', ''--newline'', ''--no-mtime'', url];
          args1 = (if \<not> (truthy startTime \<or> truthy endTime \<or> truthy chapter)
                     then splice 4 [''-f'', format] args0 else args0)
      in if truthy startTime \<or> truthy endTime then
           (let sectionArgs = sectionArg ''-ss'' startTime @ sectionArg ''-to'' endTime
            in args1 @ [''--postprocessor-args'', ''ffmpeg_downloader: '' @ joinWith '' '' sectionArgs])
         else args1)"

definition runDownload :: "env \<Rightarrow> string list \<Rightarrow> string \<Rightarrow> unit io" where
  "runDownload ev args tmp w =
     (case spawnPromise ev ''yt-dlp'' args (Some tmp) w of
        (Inr (out, err), w1) \<Rightarrow>
          (Inr (), if err \<noteq> [] then emit (ConsoleError [''yt-dlp stderr:'', err]) w1 else w1)
      | (Inl e, w1) \<Rightarrow> (Inl (Error (''Download failed: '' @ message e)), w1))"

definition isVideoFile :: "string \<Rightarrow> bool" where
  "isVideoFile f = (endsWith f ''.mp4'' \<or> endsWith f ''.webm'')"

definition fullVideoNotFound :: js_error where
  "fullVideoNotFound = Error ''Full video not found in temporary directory for chapter splitting.''"

definition ffmpegArgs :: "string \<Rightarrow> chapter_info \<Rightarrow> string \<Rightarrow> string list" where
  "ffmpegArgs fullVideoPath chap chapterOutputPath =
     [''-i'', fullVideoPath, ''-ss'', start_time chap, ''-to'', end_time chap,
      ''-c'', ''copy'', chapterOutputPath]"

definition extractChapter :: "env \<Rightarrow> string \<Rightarrow> video_info \<Rightarrow> string \<Rightarrow> chapter_info \<Rightarrow> unit io" where
  "extractChapter ev tmp videoInfo chapter chap w =
     (if chapter = ''all'' \<or> title chap = chapter then
        (let chapterFileName = video_title videoInfo @ '' - '' @ title chap @ ''.mp4'';
             chapterOutputPath = path_join tmp chapterFileName
         in case readdirSync tmp (files w) of
              Inl e \<Rightarrow> (Inl e, w)
            | Inr names \<Rightarrow>
                (let fullVideoPath =
                       path_join tmp (case find isVideoFile names of Some f \<Rightarrow> f | None \<Rightarrow> [])
                 in if fullVideoPath = [] then (Inl fullVideoNotFound, w)
                    else
                      (case spawnPromise ev ''ffmpeg''
                              (ffmpegArgs fullVideoPath chap chapterOutputPath) None w of
                         (Inr (out, err), w1) \<Rightarrow>
                           (Inr (), if err \<noteq> [] then emit (ConsoleError [''FFmpeg stderr:'', err]) w1
                                    else w1)
                       | (Inl e, w1) \<Rightarrow>
                           (Inr (), emit (ConsoleError
                              [''Failed to extract chapter '' @ [CHR 0x22] @ title chap @ [CHR 0x22] @ '':'',
                               message e]) w1))))
      else (Inr (), w))"

fun extractChapters :: "env \<Rightarrow> string \<Rightarrow> video_info \<Rightarrow> string \<Rightarrow> chapter_info list \<Rightarrow> unit io" where
  "extractChapters ev tmp videoInfo chapter [] w = (Inr (), w)"
| "extractChapters ev tmp videoInfo chapter (chap # rest) w =
     (case extractChapter ev tmp videoInfo chapter chap w of
        (Inl e, w1) \<Rightarrow> (Inl e, w1)
      | (Inr u, w1) \<Rightarrow> extractChapters ev tmp videoInfo chapter rest w1)"

definition splitChapters :: "env \<Rightarrow> string \<Rightarrow> string \<Rightarrow> string option \<Rightarrow> unit io" where
  "splitChapters ev url tmp chapter w =
     (case chapter of
        None \<Rightarrow> (Inr (), w)
      | Some c \<Rightarrow>
          if c = [] then (Inr (), w)
          else
            (case spawnPromise ev ''yt-dlp'' [''--print-json'', url] None w of
               (Inl e, w1) \<Rightarrow> (Inl e, w1)
             | (Inr (out, err), w1) \<Rightarrow>
                 (case decode_info ev out of
                    None \<Rightarrow> (Inl SyntaxError, w1)
                  | Some videoInfo \<Rightarrow>
                      if chapters videoInfo \<noteq> []
                      then extractChapters ev tmp videoInfo c (chapters videoInfo) w1
                      else (Inr (), emit (ConsoleWarn
                              [''No chapters found for video, or chapter metadata is missing.'']) w1))))"

definition noFilesDownloaded :: js_error where
  "noFilesDownloaded = Error ''No files were downloaded by yt-dlp.''"

fun moveFiles :: "string \<Rightarrow> string \<Rightarrow> string list \<Rightarrow> unit io" where
  "moveFiles tmp dest [] w = (Inr (), w)"
| "moveFiles tmp dest (f # rest) w =
     (let sourcePath = path_join tmp f;
          destinationPath = path_join dest f
      in case renameSync sourcePath destinationPath (files w) of
           Inl e \<Rightarrow> (Inl e, w)
         | Inr fs' \<Rightarrow>
             moveFiles tmp dest rest (emit (Rename sourcePath destinationPath) (w\<lparr>files := fs'\<rparr>)))"

definition successMessage :: "string \<Rightarrow> string" where
  "successMessage dest =
     ''Video download process initiated to '' @ dest @
     ''. Check the directory for the downloaded file(s).''"

definition moveDownloaded :: "string \<Rightarrow> string \<Rightarrow> string io" where
  "moveDownloaded tmp dest w =
     (case readdirSync tmp (files w) of
        Inl e \<Rightarrow> (Inl e, w)
      | Inr downloadedFiles \<Rightarrow>
          if length downloadedFiles = 0 then (Inl noFilesDownloaded, w)
          else
            (case moveFiles tmp dest downloadedFiles w of
               (Inl e, w1) \<Rightarrow> (Inl e, w1)
             | (Inr u, w1) \<Rightarrow> (Inr (successMessage dest), w1)))"

text \<open>
  The stages of the \<open>try\<close> block up to and including the chapter splitting, then the
  whole block, then the function with its \<open>finally\<close> clause. The value of
  \<open>validateUrl\<close> is computed and dropped, as in the source.
\<close>

definition stageFiles ::
  "env \<Rightarrow> string \<Rightarrow> config \<Rightarrow> string option \<Rightarrow> string option \<Rightarrow> string option \<Rightarrow> string option \<Rightarrow> unit io" where
  "stageFiles ev url cfg resolution startTime endTime chapter =
     (let tmp = tempDownloadDir cfg;
          valid = validateUrl ev url
      in andThen (ensureTempDir tmp) (\<lambda>u.
         let format = selectFormat ev url (resolutionOrDefault resolution);
             args = downloadArgs url format startTime endTime chapter
         in andThen (runDownload ev args tmp) (\<lambda>u.
            splitChapters ev url tmp chapter)))"

definition tryBlock ::
  "env \<Rightarrow> string \<Rightarrow> config \<Rightarrow> string option \<Rightarrow> string option \<Rightarrow> string option \<Rightarrow> string option \<Rightarrow> string io" where
  "tryBlock ev url cfg resolution startTime endTime chapter =
     andThen (stageFiles ev url cfg resolution startTime endTime chapter) (\<lambda>u.
       moveDownloaded (tempDownloadDir cfg) (downloadsDir (file_cfg cfg)))"

definition cleanup :: "string \<Rightarrow> world \<Rightarrow> world" where
  "cleanup tmp w =
     (if existsSync (files w) tmp then emit (Rm tmp) (w\<lparr>files := rmSync tmp (files w)\<rparr>) else w)"

definition downloadVideo ::
  "env \<Rightarrow> string \<Rightarrow> config \<Rightarrow> string option \<Rightarrow> string option \<Rightarrow> string option \<Rightarrow> string option \<Rightarrow> string io" where
  "downloadVideo ev url cfg resolution startTime endTime chapter w =
     (case tryBlock ev url cfg resolution startTime endTime chapter w of
        (r, w1) \<Rightarrow> (r, cleanup (tempDownloadDir cfg) w1))"

section \<open>A sample environment\<close>

text \<open>
  A small world on which the definitions can be run: two addresses that parse, a download
  that ends with a given exit status and standard-error text and leaves the given files in
  its working directory, a metadata query that ends with a given status and prints a
  document with two chapters, and a trimming tool that writes its output file.
\<close>

definition sampleHostname :: "string \<Rightarrow> string option" where
  "sampleHostname u =
     (if u = ''https://www.youtube.com/watch?v=jNQXAC9IVRw'' then Some ''www.youtube.com''
      else if u = ''https://example.com/clip'' then Some ''example.com''
      else None)"

definition sampleInfo :: video_info where
  "sampleInfo =
     \<lparr>video_title = ''Talk'',
      chapters = [\<lparr>title = ''Intro'', start_time = ''0'', end_time = ''30''\<rparr>,
                  \<lparr>title = ''Main'', start_time = ''30'', end_time = ''600''\<rparr>]\<rparr>"

definition sampleDecode :: "string \<Rightarrow> video_info option" where
  "sampleDecode s = (if s = ''{}'' then Some sampleInfo else None)"

definition sampleRun ::
  "nat option \<Rightarrow> string \<Rightarrow> string list \<Rightarrow> nat option \<Rightarrow>
   nat \<Rightarrow> string \<Rightarrow> string list \<Rightarrow> string option \<Rightarrow> filesystem \<Rightarrow> outcome" where
  "sampleRun dlCode dlErr staged metaCode t command args cwd fs =
     (case cwd of
        Some d \<Rightarrow>
          \<lparr>exit_code = dlCode, stdout = [], stderr = dlErr,
           files_after = fs @ map (\<lambda>n. (d @ ''/'' @ n, File)) staged\<rparr>
      | None \<Rightarrow>
          if command = ''ffmpeg''
          then \<lparr>exit_code = Some 0, stdout = [], stderr = [],
                files_after = fs @ [(last args, File)]\<rparr>
          else \<lparr>exit_code = metaCode, stdout = ''{}'', stderr = [], files_after = fs\<rparr>)"

definition sampleEnv :: "nat option \<Rightarrow> string \<Rightarrow> string list \<Rightarrow> nat option \<Rightarrow> env" where
  "sampleEnv dlCode dlErr staged metaCode =
     \<lparr>hostname_of = sampleHostname,
      run = sampleRun dlCode dlErr staged metaCode,
      decode_info = sampleDecode\<rparr>"

definition sampleConfig :: config where
  "sampleConfig =
     \<lparr>file_cfg = \<lparr>maxFilenameLength = 50, downloadsDir = ''/dl'', tempDirPrefix = ''ytdlp-''\<rparr>\<rparr>"

definition sampleWorld :: world where
  "sampleWorld = \<lparr>files = [(''/dl'', Dir)], trace = []\<rparr>"

section \<open>Observing the trimming tool and the moves\<close>

text \<open>
  The output paths handed to the trimming tool, read off a trace in the order of the
  invocations: the output path is the last argument of each \<open>ffmpeg\<close> command.
\<close>

fun ffmpegOutput :: "event \<Rightarrow> string option" where
  "ffmpegOutput (Spawn command args cwd) =
     (if command = ''ffmpeg'' \<and> args \<noteq> [] then Some (last args) else None)"
| "ffmpegOutput e = None"

definition ffmpegOutputs :: "event list \<Rightarrow> string list" where
  "ffmpegOutputs es = List.map_filter ffmpegOutput es"

text \<open>
  The moves performed, read off a trace: source and destination of each rename.
\<close>

fun renameOf :: "event \<Rightarrow> (string \<times> string) option" where
  "renameOf (Rename src dst) = Some (src, dst)"
| "renameOf e = None"

definition renames :: "event list \<Rightarrow> (string \<times> string) list" where
  "renames es = List.map_filter renameOf es"

section \<open>Normal forms of paths\<close>

text \<open>
  A segment list is in normal form when it is what normalisation leaves behind: no empty
  segment and no single dot, no slash inside a segment, and double dots only at the front
  of a relative path. The list is read from its end, as normalisation builds it.
\<close>

definition plainSeg :: "string \<Rightarrow> bool" where
  "plainSeg s = (s \<noteq> [] \<and> s \<noteq> ''.'' \<and> s \<noteq> ''..'' \<and> CHR ''/'' \<notin> set s)"

fun normalRev :: "bool \<Rightarrow> string list \<Rightarrow> bool" where
  "normalRev allow [] = True"
| "normalRev allow (s # r) =
     (normalRev allow r \<and> (plainSeg s \<or> (s = ''..'' \<and> allow \<and> (r = [] \<or> hd r = ''..''))))"

definition normalSegs :: "bool \<Rightarrow> string list \<Rightarrow> bool" where
  "normalSegs allow segs = normalRev allow (rev segs)"

section \<open>Basic facts about the stages\<close>

lemmas stage_defs = downloadVideo_def tryBlock_def stageFiles_def andThen_def
  ensureTempDir_def runDownload_def spawnPromise_def splitChapters_def extractChapter_def
  moveDownloaded_def cleanup_def emit_def Let_def

lemmas platform_defs = tempDownloadDir_def path_join_def path_normalize_def normalizeString_def
  existsSync_def mkdirSync_def readdirSync_def renameSync_def rmSync_def below_def entryName_def
  endsWith_def isVideoFile_def List.map_filter_def sortNames_def

lemmas format_defs = selectFormat_def isYouTubeUrl_def validateUrl_def youtubeFormat_def
  otherFormat_def resolutionOrDefault_def downloadArgs_def sectionArg_def truthy_def splice_def

lemmas sample_defs = sampleEnv_def sampleRun_def sampleHostname_def sampleDecode_def
  sampleInfo_def sampleConfig_def sampleWorld_def

lemma trace_emit [simp]: "trace (emit e w) = trace w @ [e]"
  by (simp add: emit_def)

lemma files_emit [simp]: "files (emit e w) = files w"
  by (simp add: emit_def)

lemma ensureTempDir_ok: "fst (ensureTempDir tmp w) = Inr ()"
  by (simp add: ensureTempDir_def mkdirSync_def existsSync_def)

lemma ensureTempDir_eq: "ensureTempDir tmp w = (Inr (), snd (ensureTempDir tmp w))"
  using ensureTempDir_ok [of tmp w] by (cases "ensureTempDir tmp w") simp

lemma stageFiles_unfold:
  "stageFiles ev url cfg resolution startTime endTime chapter w =
     andThen (runDownload ev
                (downloadArgs url (selectFormat ev url (resolutionOrDefault resolution))
                   startTime endTime chapter)
                (tempDownloadDir cfg))
       (\<lambda>u. splitChapters ev url (tempDownloadDir cfg) chapter)
       (snd (ensureTempDir (tempDownloadDir cfg) w))"
proof -
  have "andThen (ensureTempDir tmp) k w = k () (snd (ensureTempDir tmp w))"
    for tmp and k :: "unit \<Rightarrow> unit io"
  proof -
    obtain w1 where "ensureTempDir tmp w = (Inr (), w1)"
      using ensureTempDir_eq [of tmp w] by blast
    then show ?thesis by (simp add: andThen_def)
  qed
  then show ?thesis by (simp add: stageFiles_def Let_def)
qed

lemma not_exists_rmSync: "\<not> existsSync (rmSync p fs) p"
  by (auto simp: existsSync_def rmSync_def below_def map_of_eq_None_iff)

lemma cleanup_removes: "\<not> existsSync (files (cleanup tmp w)) tmp"
  by (simp add: cleanup_def not_exists_rmSync)

lemma downloadVideo_world:
  "snd (downloadVideo ev url cfg resolution startTime endTime chapter w) =
   cleanup (tempDownloadDir cfg) (snd (tryBlock ev url cfg resolution startTime endTime chapter w))"
  by (simp add: downloadVideo_def split: prod.splits)

lemma downloadVideo_unfold:
  "downloadVideo ev url cfg resolution startTime endTime chapter w =
     (case runDownload ev
             (downloadArgs url (selectFormat ev url (resolutionOrDefault resolution))
                startTime endTime chapter)
             (tempDownloadDir cfg) (snd (ensureTempDir (tempDownloadDir cfg) w)) of
        (Inl e, w2) \<Rightarrow> (Inl e, cleanup (tempDownloadDir cfg) w2)
      | (Inr u, w2) \<Rightarrow>
          (case splitChapters ev url (tempDownloadDir cfg) chapter w2 of
             (Inl e, w3) \<Rightarrow> (Inl e, cleanup (tempDownloadDir cfg) w3)
           | (Inr u', w3) \<Rightarrow>
               (fst (moveDownloaded (tempDownloadDir cfg) (downloadsDir (file_cfg cfg)) w3),
                cleanup (tempDownloadDir cfg)
                  (snd (moveDownloaded (tempDownloadDir cfg) (downloadsDir (file_cfg cfg)) w3)))))"
  by (simp add: downloadVideo_def tryBlock_def stageFiles_unfold andThen_def
      split: prod.splits sum.splits)

lemma spawnPromise_trace:
  "trace (snd (spawnPromise ev c args cwd w)) = trace w @ [Spawn c args cwd]"
  by (simp add: spawnPromise_def Let_def)

lemma runDownload_trace:
  "\<exists>es. trace (snd (runDownload ev args tmp w)) = trace w @ Spawn ''yt-dlp'' args (Some tmp) # es"
  by (auto simp add: runDownload_def spawnPromise_def Let_def split: prod.splits sum.splits)

lemma extractChapter_trace:
  "prefix (trace w) (trace (snd (extractChapter ev tmp vi c chap w)))"
  by (auto simp add: extractChapter_def spawnPromise_def Let_def prefix_def
      split: prod.splits sum.splits option.splits)

lemma extractChapters_trace:
  "prefix (trace w) (trace (snd (extractChapters ev tmp vi c chs w)))"
proof (induction chs arbitrary: w)
  case Nil
  then show ?case by simp
next
  case (Cons chap rest)
  obtain r w1 where st: "extractChapter ev tmp vi c chap w = (r, w1)"
    by (cases "extractChapter ev tmp vi c chap w")
  from extractChapter_trace [of w ev tmp vi c chap] st
  have p1: "prefix (trace w) (trace w1)" by simp
  show ?case
  proof (cases r)
    case (Inl e)
    with st p1 show ?thesis by simp
  next
    case (Inr u)
    from Cons.IH [of w1] p1
    have "prefix (trace w) (trace (snd (extractChapters ev tmp vi c rest w1)))"
      by (rule prefix_order.trans [rotated])
    with st Inr show ?thesis by simp
  qed
qed

lemma splitChapters_trace:
  "prefix (trace w) (trace (snd (splitChapters ev url tmp chapter w)))"
proof (cases "truthy chapter")
  case False
  then show ?thesis by (auto simp: splitChapters_def truthy_def split: option.splits)
next
  case True
  then obtain c where c: "chapter = Some c" "c \<noteq> []"
    by (auto simp: truthy_def split: option.splits)
  obtain r w1 where sp: "spawnPromise ev ''yt-dlp'' [''--print-json'', url] None w = (r, w1)"
    by (cases "spawnPromise ev ''yt-dlp'' [''--print-json'', url] None w")
  from spawnPromise_trace [of ev "''yt-dlp''" "[''--print-json'', url]" None w] sp
  have t1: "prefix (trace w) (trace w1)" by simp
  show ?thesis
  proof (cases r)
    case (Inl e)
    with c sp t1 show ?thesis by (simp add: splitChapters_def)
  next
    case (Inr oe)
    obtain out err where oe: "oe = (out, err)" by (cases oe)
    show ?thesis
    proof (cases "decode_info ev out")
      case None
      with c sp t1 Inr oe show ?thesis by (simp add: splitChapters_def)
    next
      case (Some vi)
      show ?thesis
      proof (cases "chapters vi = []")
        case True
        with c sp t1 Inr oe Some show ?thesis
          by (auto simp add: splitChapters_def prefix_def)
      next
        case False
        from extractChapters_trace [of w1 ev tmp vi c "chapters vi"] t1
        have "prefix (trace w) (trace (snd (extractChapters ev tmp vi c (chapters vi) w1)))"
          by (rule prefix_order.trans [rotated])
        with c sp Inr oe Some False show ?thesis by (simp add: splitChapters_def)
      qed
    qed
  qed
qed

lemma moveFiles_trace:
  "prefix (trace w) (trace (snd (moveFiles tmp dest fs w)))"
proof (induction fs arbitrary: w)
  case Nil
  then show ?case by simp
next
  case (Cons f rest)
  show ?case
  proof (cases "renameSync (path_join tmp f) (path_join dest f) (files w)")
    case (Inl e)
    then show ?thesis by (simp add: Let_def)
  next
    case (Inr fs')
    let ?w1 = "emit (Rename (path_join tmp f) (path_join dest f)) (w\<lparr>files := fs'\<rparr>)"
    have "prefix (trace w) (trace ?w1)" by simp
    with Cons.IH [of "?w1"]
    have "prefix (trace w) (trace (snd (moveFiles tmp dest rest ?w1)))"
      by (rule prefix_order.trans [rotated])
    with Inr show ?thesis by (simp add: Let_def)
  qed
qed

lemma moveDownloaded_trace:
  "prefix (trace w) (trace (snd (moveDownloaded tmp dest w)))"
proof (cases "readdirSync tmp (files w)")
  case (Inl e)
  then show ?thesis by (simp add: moveDownloaded_def)
next
  case (Inr fs)
  from moveFiles_trace [of w tmp dest fs]
  show ?thesis using Inr
    by (auto simp: moveDownloaded_def split: prod.splits sum.splits)
qed

lemma cleanup_trace: "prefix (trace w) (trace (cleanup tmp w))"
  by (simp add: cleanup_def)

lemma downloadVideo_trace_after_download:
  "prefix (trace (snd (runDownload ev
             (downloadArgs url (selectFormat ev url (resolutionOrDefault resolution))
                startTime endTime chapter)
             (tempDownloadDir cfg) (snd (ensureTempDir (tempDownloadDir cfg) w)))))
          (trace (snd (downloadVideo ev url cfg resolution startTime endTime chapter w)))"
proof -
  let ?tmp = "tempDownloadDir cfg"
  let ?dl = "runDownload ev
             (downloadArgs url (selectFormat ev url (resolutionOrDefault resolution))
                startTime endTime chapter) ?tmp (snd (ensureTempDir ?tmp w))"
  obtain r w2 where dl: "?dl = (r, w2)" by (cases ?dl)
  show ?thesis
  proof (cases r)
    case (Inl e)
    with dl cleanup_trace [of w2 "?tmp"] show ?thesis
      by (simp add: downloadVideo_unfold)
  next
    case (Inr u)
    obtain r3 w3 where sc: "splitChapters ev url ?tmp chapter w2 = (r3, w3)"
      by (cases "splitChapters ev url ?tmp chapter w2")
    from splitChapters_trace [of w2 ev url "?tmp" "chapter"] sc
    have p23: "prefix (trace w2) (trace w3)" by simp
    show ?thesis
    proof (cases r3)
      case (Inl e)
      from p23 cleanup_trace [of w3 "?tmp"]
      have "prefix (trace w2) (trace (cleanup ?tmp w3))"
        by (rule prefix_order.trans)
      with dl Inr sc Inl show ?thesis by (simp add: downloadVideo_unfold)
    next
      case (Inr u')
      let ?w4 = "snd (moveDownloaded ?tmp (downloadsDir (file_cfg cfg)) w3)"
      from p23 moveDownloaded_trace [of w3 "?tmp" "downloadsDir (file_cfg cfg)"]
      have "prefix (trace w2) (trace ?w4)" by (rule prefix_order.trans)
      from this cleanup_trace [of "?w4" "?tmp"]
      have "prefix (trace w2) (trace (cleanup ?tmp ?w4))" by (rule prefix_order.trans)
      with dl \<open>r = Inr u\<close> sc Inr show ?thesis by (simp add: downloadVideo_unfold)
    qed
  qed
qed

lemma downloadVideo_spawns_downloader:
  "Spawn ''yt-dlp''
     (downloadArgs url (selectFormat ev url (resolutionOrDefault resolution))
        startTime endTime chapter)
     (Some (tempDownloadDir cfg))
   \<in> set (trace (snd (downloadVideo ev url cfg resolution startTime endTime chapter w)))"
proof -
  let ?args = "downloadArgs url (selectFormat ev url (resolutionOrDefault resolution))
                startTime endTime chapter"
  let ?w1 = "snd (ensureTempDir (tempDownloadDir cfg) w)"
  from runDownload_trace [of ev "?args" "tempDownloadDir cfg" "?w1"]
  have "Spawn ''yt-dlp'' ?args (Some (tempDownloadDir cfg))
          \<in> set (trace (snd (runDownload ev ?args (tempDownloadDir cfg) ?w1)))"
    by auto
  with downloadVideo_trace_after_download [of ev url resolution startTime endTime "chapter" cfg w]
  show ?thesis
    using set_mono_prefix by blast
qed

section \<open>Facts about paths\<close>

lemma splitPath_nonempty [simp]: "splitPath s \<noteq> []"
  by (induction s) (auto split: list.splits)

lemma splitPath_slashfree: "seg \<in> set (splitPath s) \<Longrightarrow> CHR ''/'' \<notin> set seg"
  by (induction s arbitrary: seg) (auto split: list.splits if_splits)

lemma splitPath_plain: "CHR ''/'' \<notin> set s \<Longrightarrow> splitPath s = [s]"
  by (induction s) auto

lemma splitPath_append_slash:
  "splitPath (a @ CHR ''/'' # b) = splitPath a @ splitPath b"
  by (induction a) (auto split: list.splits)

lemma splitPath_plain_slash:
  "CHR ''/'' \<notin> set s \<Longrightarrow> splitPath (s @ CHR ''/'' # b) = s # splitPath b"
  by (simp add: splitPath_append_slash splitPath_plain)

lemma splitPath_joinWith:
  "segs \<noteq> [] \<Longrightarrow> \<forall>s \<in> set segs. CHR ''/'' \<notin> set s \<Longrightarrow> splitPath (joinWith ''/'' segs) = segs"
proof (induction "''/''" segs rule: joinWith.induct)
  case 1
  then show ?case by simp
next
  case (2 s)
  then show ?case by (simp add: splitPath_plain)
next
  case (3 s t ss)
  then show ?case by (simp add: splitPath_plain_slash)
qed

lemma normalSegs_Nil [simp]: "normalSegs allow []"
  by (simp add: normalSegs_def)

lemma normalSegs_snoc:
  "normalSegs allow (res @ [s]) =
     (normalSegs allow res \<and> (plainSeg s \<or> (s = ''..'' \<and> allow \<and> (res = [] \<or> last res = ''..''))))"
  by (auto simp: normalSegs_def hd_rev)

lemma normalRev_tl: "normalRev allow r \<Longrightarrow> normalRev allow (tl r)"
  by (cases r) auto

lemma rev_butlast_tl: "rev (butlast xs) = tl (rev xs)"
  by (induction xs rule: rev_induct) auto

lemma normalSegs_butlast: "normalSegs allow res \<Longrightarrow> normalSegs allow (butlast res)"
  by (simp add: normalSegs_def normalRev_tl rev_butlast_tl)

lemma normalSegs_single: "normalSegs allow [s] = (plainSeg s \<or> (s = ''..'' \<and> allow))"
  by (auto simp: normalSegs_def)

lemma normalRev_suffix: "normalRev allow (zs @ r) \<Longrightarrow> normalRev allow r"
  by (induction zs) auto

lemma normalSegs_prefix: "normalSegs allow (xs @ ys) \<Longrightarrow> normalSegs allow xs"
  by (simp add: normalSegs_def normalRev_suffix)

lemma normalSegs_segments:
  "normalSegs allow segs \<Longrightarrow> s \<in> set segs \<Longrightarrow> s \<noteq> [] \<and> CHR ''/'' \<notin> set s"
proof -
  have "normalRev allow r \<Longrightarrow> s \<in> set r \<Longrightarrow> s \<noteq> [] \<and> CHR ''/'' \<notin> set s" for r
    by (induction r) (auto simp: plainSeg_def)
  from this [of "rev segs"] show "normalSegs allow segs \<Longrightarrow> s \<in> set segs \<Longrightarrow> s \<noteq> [] \<and> CHR ''/'' \<notin> set s"
    by (simp add: normalSegs_def)
qed

lemma normalizeSegs_normal:
  "normalSegs allow res \<Longrightarrow> \<forall>s \<in> set ss. CHR ''/'' \<notin> set s \<Longrightarrow>
   normalSegs allow (normalizeSegs allow res ss)"
proof (induction ss arbitrary: res)
  case Nil
  then show ?case by simp
next
  case (Cons s ss)
  then show ?case
    by (auto simp: normalSegs_snoc normalSegs_single normalSegs_butlast plainSeg_def)
qed

lemma normalizeSegs_fixed:
  "normalSegs allow (res @ segs) \<Longrightarrow> normalizeSegs allow res segs = res @ segs"
proof (induction segs arbitrary: res)
  case Nil
  then show ?case by simp
next
  case (Cons s ss)
  from Cons.prems have all: "normalSegs allow ((res @ [s]) @ ss)" by simp
  then have "normalSegs allow (res @ [s])" by (rule normalSegs_prefix)
  then have step: "normalizeSegs allow res (s # ss) = normalizeSegs allow (res @ [s]) ss"
    by (auto simp: normalSegs_snoc plainSeg_def)
  from Cons.IH [OF all] step show ?case by simp
qed

lemma joinWith_nonempty:
  "segs \<noteq> [] \<Longrightarrow> \<forall>s \<in> set segs. s \<noteq> [] \<Longrightarrow> joinWith sep segs \<noteq> []"
  by (induction sep segs rule: joinWith.induct) auto

lemma hd_joinWith:
  "segs \<noteq> [] \<Longrightarrow> \<forall>s \<in> set segs. s \<noteq> [] \<Longrightarrow> hd (joinWith sep segs) = hd (hd segs)"
  by (induction sep segs rule: joinWith.induct) auto

lemma last_joinWith:
  "segs \<noteq> [] \<Longrightarrow> \<forall>s \<in> set segs. s \<noteq> [] \<Longrightarrow> last (joinWith sep segs) = last (last segs)"
proof (induction sep segs rule: joinWith.induct)
  case (3 sep s t ss)
  then have "joinWith sep (t # ss) \<noteq> []" by (intro joinWith_nonempty) auto
  with 3 show ?case by simp
qed auto

lemma path_normalize_nonempty: "path_normalize p \<noteq> []"
  by (simp add: path_normalize_def Let_def)

lemma path_join_nonempty: "path_join a b \<noteq> []"
  by (simp add: path_join_def Let_def path_normalize_nonempty)

lemma path_normalize_idem: "path_normalize (path_normalize p) = path_normalize p"
proof (cases "p = []")
  case True
  then show ?thesis by (simp add: path_normalize_def normalizeString_def)
next
  case False
  define isAbs where "isAbs = (hd p = CHR ''/'')"
  define trailing where "trailing = (last p = CHR ''/'')"
  define segs where "segs = normalizeSegs (\<not> isAbs) [] (splitPath p)"
  have nf: "normalSegs (\<not> isAbs) segs"
    unfolding segs_def by (rule normalizeSegs_normal) (auto dest: splitPath_slashfree)
  have seg: "s \<noteq> [] \<and> CHR ''/'' \<notin> set s" if "s \<in> set segs" for s
    using normalSegs_segments [OF nf that] .
  have fixed: "normalizeSegs (\<not> isAbs) [] segs = segs"
    using normalizeSegs_fixed [of "\<not> isAbs" "[]" segs] nf by simp
  show ?thesis
  proof (cases "segs = []")
    case True
    with False have "path_normalize p = ''/'' \<or> path_normalize p = ''./'' \<or> path_normalize p = ''.''"
      unfolding path_normalize_def normalizeString_def Let_def
      by (simp add: segs_def isAbs_def)
    moreover have "path_normalize ''/'' = ''/''" "path_normalize ''./'' = ''./''"
      "path_normalize ''.'' = ''.''"
      by (simp_all add: path_normalize_def normalizeString_def)
    ultimately show ?thesis by auto
  next
    case nonempty: False
    let ?q = "joinWith ''/'' segs"
    have q: "?q \<noteq> []" using nonempty seg by (intro joinWith_nonempty) auto
    have hdq: "hd ?q \<noteq> CHR ''/''"
    proof -
      have "hd ?q = hd (hd segs)" using nonempty seg by (intro hd_joinWith) auto
      moreover have "hd segs \<in> set segs" using nonempty by simp
      ultimately show ?thesis using seg [of "hd segs"] by (metis hd_in_set)
    qed
    have lastq: "last ?q \<noteq> CHR ''/''"
    proof -
      have "last ?q = last (last segs)" using nonempty seg by (intro last_joinWith) auto
      moreover have "last segs \<in> set segs" using nonempty by simp
      ultimately show ?thesis using seg [of "last segs"] by (metis last_in_set)
    qed
    have sp: "splitPath ?q = segs" using nonempty seg by (intro splitPath_joinWith) auto
    have sp_trail: "splitPath (?q @ ''/'') = segs @ [[]]"
      using sp by (simp add: splitPath_append_slash)
    have norm_trail: "normalizeSegs a [] (segs @ [[]]) = normalizeSegs a [] segs" for a
    proof -
      have "normalizeSegs a res (xs @ [[]]) = normalizeSegs a res xs" for res xs
        by (induction xs arbitrary: res) auto
      then show ?thesis .
    qed
    define r where "r = (if isAbs then ''/'' else []) @ ?q @ (if trailing then ''/'' else [])"
    have res: "path_normalize p = r"
      using False q unfolding path_normalize_def normalizeString_def Let_def r_def
      by (simp add: segs_def isAbs_def trailing_def)
    have r_ne: "r \<noteq> []" using q by (simp add: r_def)
    have r_abs: "(hd r = CHR ''/'') = isAbs" using q hdq by (simp add: r_def)
    have r_trail: "(last r = CHR ''/'') = trailing" using q lastq by (simp add: r_def)
    have r_segs: "normalizeSegs (\<not> isAbs) [] (splitPath r) = segs"
      using sp sp_trail fixed norm_trail [of "\<not> isAbs"]
      by (auto simp: r_def)
    have "path_normalize r = r"
      using r_ne q unfolding path_normalize_def normalizeString_def Let_def r_abs r_trail r_segs
      by (simp add: r_def)
    with res show ?thesis by simp
  qed
qed

lemma path_join_empty_right: "path_join (path_join a b) [] = path_join a b"
proof -
  have "path_join a b = path_normalize (path_join a b)"
    by (simp add: path_join_def Let_def path_normalize_idem)
       (simp add: path_normalize_def normalizeString_def)
  then show ?thesis
    using path_join_nonempty [of a b] by (simp add: path_join_def [of "path_join a b"] Let_def)
qed

section \<open>Where errors come from\<close>

lemma readdirSync_error: "readdirSync d fs = Inl e \<Longrightarrow> e = SystemError ''ENOENT'' d \<or> e = SystemError ''ENOTDIR'' d"
  by (auto simp: readdirSync_def split: option.splits node.splits)

lemma renameSync_error: "renameSync src dst fs = Inl e \<Longrightarrow> \<exists>c p. e = SystemError c p"
  by (auto simp: renameSync_def split: option.splits node.splits if_splits)

lemma spawnPromise_error:
  "fst (spawnPromise ev c args cwd w) = Inl e \<Longrightarrow>
   e = Error (failureMessage (run ev (length (trace w)) c args cwd (files w)))"
  by (auto simp: spawnPromise_def Let_def split: if_splits)

lemma extractChapter_error:
  "fst (extractChapter ev tmp vi c chap w) = Inl e \<Longrightarrow> readdirSync tmp (files w) = Inl e"
  by (auto simp: extractChapter_def Let_def path_join_nonempty
      split: if_splits sum.splits prod.splits)

lemma extractChapters_error:
  "fst (extractChapters ev tmp vi c chs w) = Inl e \<Longrightarrow> \<exists>code. e = SystemError code tmp"
proof (induction chs arbitrary: w)
  case Nil
  then show ?case by simp
next
  case (Cons chap rest)
  obtain r w1 where st: "extractChapter ev tmp vi c chap w = (r, w1)"
    by (cases "extractChapter ev tmp vi c chap w")
  show ?case
  proof (cases r)
    case (Inl e')
    with st Cons.prems have "fst (extractChapter ev tmp vi c chap w) = Inl e" by simp
    then have "readdirSync tmp (files w) = Inl e" by (rule extractChapter_error)
    then show ?thesis by (auto dest: readdirSync_error)
  next
    case (Inr u)
    with st Cons.prems have "fst (extractChapters ev tmp vi c rest w1) = Inl e" by simp
    then show ?thesis by (rule Cons.IH)
  qed
qed

lemma splitChapters_error:
  assumes "fst (splitChapters ev url tmp ch w) = Inl e"
  shows "(\<exists>r. e = Error (failureMessage r)) \<or> e = SyntaxError \<or> (\<exists>c p. e = SystemError c p)"
proof (cases "truthy ch")
  case False
  with assms show ?thesis by (auto simp: splitChapters_def truthy_def split: option.splits)
next
  case True
  then obtain c where c: "ch = Some c" "c \<noteq> []"
    by (auto simp: truthy_def split: option.splits)
  obtain r w1 where sp: "spawnPromise ev ''yt-dlp'' [''--print-json'', url] None w = (r, w1)"
    by (cases "spawnPromise ev ''yt-dlp'' [''--print-json'', url] None w")
  show ?thesis
  proof (cases r)
    case (Inl e')
    with c sp assms have "e' = e" by (simp add: splitChapters_def)
    with sp Inl spawnPromise_error [of ev "''yt-dlp''" "[''--print-json'', url]" None w e]
    show ?thesis by auto
  next
    case (Inr oe)
    obtain out err where oe: "oe = (out, err)" by (cases oe)
    show ?thesis
    proof (cases "decode_info ev out")
      case None
      with c sp assms Inr oe show ?thesis by (simp add: splitChapters_def)
    next
      case (Some vi)
      show ?thesis
      proof (cases "chapters vi = []")
        case True
        with c sp assms Inr oe Some show ?thesis by (simp add: splitChapters_def)
      next
        case False
        with c sp assms Inr oe Some
        have "fst (extractChapters ev tmp vi c (chapters vi) w1) = Inl e"
          by (simp add: splitChapters_def)
        from extractChapters_error [OF this] show ?thesis by blast
      qed
    qed
  qed
qed

lemma moveFiles_error:
  "fst (moveFiles tmp dest fs w) = Inl e \<Longrightarrow> \<exists>c p. e = SystemError c p"
proof (induction fs arbitrary: w)
  case Nil
  then show ?case by simp
next
  case (Cons f rest)
  show ?case
  proof (cases "renameSync (path_join tmp f) (path_join dest f) (files w)")
    case (Inl e')
    with Cons.prems have "e' = e" by (simp add: Let_def)
    with Inl show ?thesis by (auto dest: renameSync_error)
  next
    case (Inr fs')
    with Cons.prems Cons.IH show ?thesis by (simp add: Let_def)
  qed
qed

lemma moveDownloaded_error:
  assumes "fst (moveDownloaded tmp dest w) = Inl e"
  shows "e = noFilesDownloaded \<or> (\<exists>c p. e = SystemError c p)"
proof (cases "readdirSync tmp (files w)")
  case (Inl e')
  with assms have "e' = e" by (simp add: moveDownloaded_def)
  with Inl show ?thesis by (auto dest: readdirSync_error)
next
  case (Inr fs)
  show ?thesis
  proof (cases "fs = []")
    case True
    with Inr assms show ?thesis by (simp add: moveDownloaded_def)
  next
    case False
    obtain r w1 where mv: "moveFiles tmp dest fs w = (r, w1)" by (cases "moveFiles tmp dest fs w")
    with Inr False assms have "fst (moveFiles tmp dest fs w) = Inl e"
      by (cases r) (simp_all add: moveDownloaded_def)
    from moveFiles_error [OF this] show ?thesis by blast
  qed
qed

lemma runDownload_result:
  "fst (runDownload ev args tmp w) =
     (if exit_code (run ev (length (trace w)) ''yt-dlp'' args (Some tmp) (files w)) = Some 0
      then Inr ()
      else Inl (Error (''Download failed: '' @
             failureMessage (run ev (length (trace w)) ''yt-dlp'' args (Some tmp) (files w)))))"
  by (simp add: runDownload_def spawnPromise_def Let_def)

lemma downloadVideo_errors:
  assumes "fst (downloadVideo ev url cfg resolution startTime endTime ch w) = Inl e"
  shows "(\<exists>r. e = Error (''Download failed: '' @ failureMessage r)) \<or>
         (\<exists>r. e = Error (failureMessage r)) \<or> e = SyntaxError \<or>
         (\<exists>c p. e = SystemError c p) \<or> e = noFilesDownloaded"
proof -
  let ?tmp = "tempDownloadDir cfg"
  let ?args = "downloadArgs url (selectFormat ev url (resolutionOrDefault resolution))
                startTime endTime ch"
  let ?w1 = "snd (ensureTempDir ?tmp w)"
  obtain r w2 where dl: "runDownload ev ?args ?tmp ?w1 = (r, w2)"
    by (cases "runDownload ev ?args ?tmp ?w1")
  show ?thesis
  proof (cases r)
    case (Inl e')
    with dl assms have "e' = e" by (simp add: downloadVideo_unfold)
    with dl Inl have "fst (runDownload ev ?args ?tmp ?w1) = Inl e" by simp
    then show ?thesis by (auto simp: runDownload_result split: if_splits)
  next
    case (Inr u)
    obtain r3 w3 where sc: "splitChapters ev url ?tmp ch w2 = (r3, w3)"
      by (cases "splitChapters ev url ?tmp ch w2")
    show ?thesis
    proof (cases r3)
      case (Inl e')
      with dl Inr sc assms have "fst (splitChapters ev url ?tmp ch w2) = Inl e"
        by (simp add: downloadVideo_unfold)
      from splitChapters_error [OF this] show ?thesis by blast
    next
      case (Inr u')
      with dl \<open>r = Inr u\<close> sc assms
      have "fst (moveDownloaded ?tmp (downloadsDir (file_cfg cfg)) w3) = Inl e"
        by (simp add: downloadVideo_unfold)
      from moveDownloaded_error [OF this] show ?thesis by blast
    qed
  qed
qed

lemma downloadVideo_never_fullVideoNotFound:
  "fst (downloadVideo ev url cfg resolution startTime endTime ch w) \<noteq> Inl fullVideoNotFound"
proof
  assume "fst (downloadVideo ev url cfg resolution startTime endTime ch w) = Inl fullVideoNotFound"
  from downloadVideo_errors [OF this] show False
    by (auto simp: fullVideoNotFound_def noFilesDownloaded_def failureMessage_def)
qed

section \<open>Facts about the chapter loop\<close>

lemma ffmpegOutputs_append: "ffmpegOutputs (xs @ ys) = ffmpegOutputs xs @ ffmpegOutputs ys"
  by (simp add: ffmpegOutputs_def List.map_filter_def)

lemma ffmpegOutputs_simps [simp]:
  "ffmpegOutputs [] = []"
  "ffmpegOutputs (e # es) = (case ffmpegOutput e of None \<Rightarrow> [] | Some p \<Rightarrow> [p]) @ ffmpegOutputs es"
  by (simp_all add: ffmpegOutputs_def List.map_filter_def split: option.splits)

lemma extractChapter_selected:
  assumes "c = ''all'' \<or> title chap = c"
      and "readdirSync tmp (files w) = Inr names"
  shows "fst (extractChapter ev tmp vi c chap w) = Inr ()"
    and "\<exists>es. trace (snd (extractChapter ev tmp vi c chap w)) =
           trace w @ Spawn ''ffmpeg''
             (ffmpegArgs (path_join tmp (case find isVideoFile names of Some f \<Rightarrow> f | None \<Rightarrow> []))
                chap (path_join tmp (video_title vi @ '' - '' @ title chap @ ''.mp4'')))
             None # es \<and> ffmpegOutputs es = []"
  using assms
  by (auto simp: extractChapter_def Let_def path_join_nonempty spawnPromise_def
      split: prod.splits sum.splits)

lemma extractChapter_skipped:
  "\<not> (c = ''all'' \<or> title chap = c) \<Longrightarrow> extractChapter ev tmp vi c chap w = (Inr (), w)"
  by (simp add: extractChapter_def)

lemma extractChapter_outputs:
  assumes "fst (extractChapter ev tmp vi c chap w) = Inr ()"
  shows "ffmpegOutputs (trace (snd (extractChapter ev tmp vi c chap w))) =
         ffmpegOutputs (trace w) @
           (if c = ''all'' \<or> title chap = c
            then [path_join tmp (video_title vi @ '' - '' @ title chap @ ''.mp4'')] else [])"
proof (cases "c = ''all'' \<or> title chap = c")
  case False
  then show ?thesis by (simp add: extractChapter_skipped)
next
  case True
  from assms True obtain names where names: "readdirSync tmp (files w) = Inr names"
    by (cases "readdirSync tmp (files w)") (auto simp: extractChapter_def Let_def)
  from extractChapter_selected(2) [OF True names, of ev vi]
  show ?thesis using True by (auto simp: ffmpegOutputs_append ffmpegArgs_def)
qed

lemma extractChapters_outputs:
  assumes "fst (extractChapters ev tmp vi c chs w) = Inr ()"
  shows "ffmpegOutputs (trace (snd (extractChapters ev tmp vi c chs w))) =
         ffmpegOutputs (trace w) @
           map (\<lambda>chap. path_join tmp (video_title vi @ '' - '' @ title chap @ ''.mp4''))
             (filter (\<lambda>chap. c = ''all'' \<or> title chap = c) chs)"
  using assms
proof (induction chs arbitrary: w)
  case Nil
  then show ?case by simp
next
  case (Cons chap rest)
  obtain r w1 where st: "extractChapter ev tmp vi c chap w = (r, w1)"
    by (cases "extractChapter ev tmp vi c chap w")
  with Cons.prems have r: "r = Inr ()" by (cases r) auto
  with st Cons.prems have rest: "fst (extractChapters ev tmp vi c rest w1) = Inr ()" by simp
  from st r have "fst (extractChapter ev tmp vi c chap w) = Inr ()" by simp
  from extractChapter_outputs [OF this] st
  have one: "ffmpegOutputs (trace w1) = ffmpegOutputs (trace w) @
           (if c = ''all'' \<or> title chap = c
            then [path_join tmp (video_title vi @ '' - '' @ title chap @ ''.mp4'')] else [])"
    by simp
  from Cons.IH [OF rest] one st r show ?case by simp
qed

section \<open>Facts about the download stage\<close>

lemma renames_append: "renames (xs @ ys) = renames xs @ renames ys"
  by (simp add: renames_def List.map_filter_def)

lemma renames_simps [simp]:
  "renames [] = []"
  "renames (e # es) = (case renameOf e of None \<Rightarrow> [] | Some p \<Rightarrow> [p]) @ renames es"
  by (simp_all add: renames_def List.map_filter_def split: option.splits)

lemma ensureTempDir_renames: "renames (trace (snd (ensureTempDir tmp w))) = renames (trace w)"
  by (simp add: ensureTempDir_def mkdirSync_def existsSync_def renames_append)

lemma runDownload_renames: "renames (trace (snd (runDownload ev args tmp w))) = renames (trace w)"
  by (simp add: runDownload_def spawnPromise_def Let_def renames_append)

lemma runDownload_logs_stderr:
  assumes "exit_code (run ev (length (trace w)) ''yt-dlp'' args (Some tmp) (files w)) = Some 0"
      and "stderr (run ev (length (trace w)) ''yt-dlp'' args (Some tmp) (files w)) \<noteq> []"
  shows "ConsoleError [''yt-dlp stderr:'',
            stderr (run ev (length (trace w)) ''yt-dlp'' args (Some tmp) (files w))]
         \<in> set (trace (snd (runDownload ev args tmp w)))"
  using assms by (simp add: runDownload_def spawnPromise_def Let_def)

lemma downloadVideo_failed_download:
  assumes "fst (runDownload ev
             (downloadArgs url (selectFormat ev url (resolutionOrDefault resolution))
                startTime endTime ch)
             (tempDownloadDir cfg) (snd (ensureTempDir (tempDownloadDir cfg) w))) = Inl e"
  shows "fst (downloadVideo ev url cfg resolution startTime endTime ch w) = Inl e"
  using assms by (auto simp: downloadVideo_unfold split: prod.splits sum.splits)

lemma downloadVideo_after_download:
  assumes "fst (runDownload ev
             (downloadArgs url (selectFormat ev url (resolutionOrDefault resolution))
                startTime endTime ch)
             (tempDownloadDir cfg) (snd (ensureTempDir (tempDownloadDir cfg) w))) = Inr ()"
      and "fst (downloadVideo ev url cfg resolution startTime endTime ch w) = Inl e"
  shows "(\<exists>r. e = Error (failureMessage r)) \<or> e = SyntaxError \<or>
         (\<exists>c p. e = SystemError c p) \<or> e = noFilesDownloaded"
proof -
  let ?tmp = "tempDownloadDir cfg"
  let ?dl = "runDownload ev
             (downloadArgs url (selectFormat ev url (resolutionOrDefault resolution))
                startTime endTime ch) ?tmp (snd (ensureTempDir ?tmp w))"
  obtain w2 where dl: "?dl = (Inr (), w2)" using assms(1) by (cases ?dl) auto
  obtain r3 w3 where sc: "splitChapters ev url ?tmp ch w2 = (r3, w3)"
    by (cases "splitChapters ev url ?tmp ch w2")
  show ?thesis
  proof (cases r3)
    case (Inl e')
    with dl sc assms(2) have "fst (splitChapters ev url ?tmp ch w2) = Inl e"
      by (simp add: downloadVideo_unfold)
    from splitChapters_error [OF this] show ?thesis by blast
  next
    case (Inr u')
    with dl sc assms(2)
    have "fst (moveDownloaded ?tmp (downloadsDir (file_cfg cfg)) w3) = Inl e"
      by (simp add: downloadVideo_unfold)
    from moveDownloaded_error [OF this] show ?thesis by blast
  qed
qed

section \<open>Facts about the argument list\<close>

lemma downloadArgs_shape:
  "downloadArgs url format startTime endTime ch =
     [''--progress'', ''--newline'', ''--no-mtime'', url] @
     (if truthy startTime \<or> truthy endTime \<or> truthy ch then [] else [''-f'', format]) @
     (if truthy startTime \<or> truthy endTime
      then [''--postprocessor-args'',
            ''ffmpeg_downloader: '' @ joinWith '' '' (sectionArg ''-ss'' startTime @ sectionArg ''-to'' endTime)]
      else [])"
  by (simp add: downloadArgs_def splice_def Let_def)

lemma selectFormat_is_no_flag:
  "selectFormat ev url r \<noteq> ''-f''"
  "selectFormat ev url r \<noteq> ''--postprocessor-args''"
  "selectFormat ev url r \<noteq> ''ffmpeg_downloader: '' @ x"
  by (simp_all add: selectFormat_def youtubeFormat_def otherFormat_def)

lemma selectFormat_has_no_colon: "CHR '':'' \<notin> set (selectFormat ev url r)"
  by (simp add: selectFormat_def youtubeFormat_def otherFormat_def)

section \<open>Facts about a failed metadata query\<close>

lemma splitChapters_fetch_failed:
  assumes "truthy ch"
      and "exit_code (run ev (length (trace w)) ''yt-dlp'' [''--print-json'', url] None (files w))
             \<noteq> Some 0"
  shows "splitChapters ev url tmp ch w =
           (Inl (Error (failureMessage
                   (run ev (length (trace w)) ''yt-dlp'' [''--print-json'', url] None (files w)))),
            w\<lparr>trace := trace w @ [Spawn ''yt-dlp'' [''--print-json'', url] None],
              files := files_after
                   (run ev (length (trace w)) ''yt-dlp'' [''--print-json'', url] None (files w))\<rparr>)"
  using assms
  by (auto simp: splitChapters_def truthy_def spawnPromise_def Let_def emit_def
      split: option.splits)

section \<open>Paths directly inside the staging directory\<close>

lemma normalizeSegs_append:
  "normalizeSegs allow res (xs @ ys) = normalizeSegs allow (normalizeSegs allow res xs) ys"
  by (induction xs arbitrary: res) auto

lemma joinWith_snoc: "xs \<noteq> [] \<Longrightarrow> joinWith sep (xs @ [y]) = joinWith sep xs @ sep @ y"
  by (induction sep xs rule: joinWith.induct) auto

lemma splitPath_snoc_plain:
  "CHR ''/'' \<notin> set name \<Longrightarrow> splitPath (p @ CHR ''/'' # name) = splitPath p @ [name]"
  by (simp add: splitPath_append_slash splitPath_plain)

lemma path_normalize_child:
  assumes p: "p \<noteq> []" and name: "plainSeg name"
  shows "path_normalize (p @ ''/'' @ name) =
         (if hd p = CHR ''/'' then ''/'' else []) @
         joinWith ''/'' (normalizeSegs (hd p \<noteq> CHR ''/'') [] (splitPath p) @ [name])"
proof -
  let ?allow = "hd p \<noteq> CHR ''/''"
  let ?segs = "normalizeSegs ?allow [] (splitPath p)"
  from name have nm: "name \<noteq> []" "name \<noteq> ''.''" "name \<noteq> ''..''" "CHR ''/'' \<notin> set name"
    by (simp_all add: plainSeg_def)
  have hd: "hd (p @ ''/'' @ name) = hd p" using p by simp
  have "last name \<in> set name" using nm by simp
  with nm have "last name \<noteq> CHR ''/''" by metis
  with nm have last: "last (p @ ''/'' @ name) \<noteq> CHR ''/''" by simp
  have "normalizeSegs ?allow [] (splitPath (p @ ''/'' @ name)) = normalizeSegs ?allow ?segs [name]"
    using nm by (simp add: splitPath_snoc_plain normalizeSegs_append)
  also have "\<dots> = ?segs @ [name]" using nm by simp
  finally have segs: "normalizeSegs ?allow [] (splitPath (p @ ''/'' @ name)) = ?segs @ [name]" .
  have ne: "joinWith ''/'' (?segs @ [name]) \<noteq> []"
    using nm by (cases "?segs = []") (simp_all add: joinWith_snoc)
  show ?thesis
    using p ne last unfolding path_normalize_def normalizeString_def Let_def hd segs
    by auto
qed

lemma path_join_child:
  assumes "plainSeg t" and "plainSeg name"
  shows "path_join (path_join d t) name = path_join d t @ ''/'' @ name"
proof -
  from assms have t: "t \<noteq> []" "t \<noteq> ''.''" "t \<noteq> ''..''" "CHR ''/'' \<notin> set t"
    and nm: "name \<noteq> []" "CHR ''/'' \<notin> set name"
    by (simp_all add: plainSeg_def)
  define p where "p = (if d = [] then [] else d @ ''/'') @ t"
  define allow where "allow = (hd p \<noteq> CHR ''/'')"
  define pre where "pre = (if allow then [] else ''/'')"
  define segs where "segs = normalizeSegs allow [] (if d = [] then [] else splitPath d)"
  have p_ne: "p \<noteq> []" using t by (simp add: p_def)
  have join1: "joinWith ''/'' (filter (\<lambda>x. x \<noteq> []) [d, t]) = p"
    using t by (simp add: p_def)
  have sp: "splitPath p = (if d = [] then [] else splitPath d) @ [t]"
    using t by (simp add: p_def splitPath_plain splitPath_snoc_plain)
  have segs_p: "normalizeSegs allow [] (splitPath p) = segs @ [t]"
    using t by (simp add: sp segs_def normalizeSegs_append)
  have q_ne: "joinWith ''/'' (segs @ [t]) \<noteq> []"
    using t by (cases "segs = []") (simp_all add: joinWith_snoc)
  have "last t \<in> set t" using t by simp
  with t have "last t \<noteq> CHR ''/''" by metis
  with t have last_p: "last p \<noteq> CHR ''/''" by (simp add: p_def)
  have tmp: "path_join d t = pre @ joinWith ''/'' (segs @ [t])"
    using p_ne q_ne last_p
    unfolding path_join_def join1 Let_def path_normalize_def normalizeString_def
    by (auto simp: segs_p [unfolded allow_def] pre_def allow_def)
  have nf: "normalSegs allow (segs @ [t])"
    unfolding segs_p [symmetric]
    by (rule normalizeSegs_normal) (auto dest: splitPath_slashfree)
  have seg: "s \<noteq> [] \<and> CHR ''/'' \<notin> set s" if "s \<in> set (segs @ [t])" for s
    using normalSegs_segments [OF nf that] .
  let ?q = "joinWith ''/'' (segs @ [t])"
  have sp_q: "splitPath ?q = segs @ [t]"
    using seg by (intro splitPath_joinWith) auto
  have hd_q: "hd ?q \<noteq> CHR ''/''"
  proof -
    have "hd ?q = hd (hd (segs @ [t]))" using seg by (intro hd_joinWith) auto
    moreover have "hd (segs @ [t]) \<in> set (segs @ [t])" by (rule hd_in_set) simp
    ultimately show ?thesis using seg [of "hd (segs @ [t])"] by (metis hd_in_set)
  qed
  let ?tmp = "pre @ ?q"
  have tmp_ne: "?tmp \<noteq> []" using q_ne by simp
  have hd_tmp: "(hd ?tmp \<noteq> CHR ''/'') = allow" using q_ne hd_q by (auto simp: pre_def)
  have sp_tmp: "normalizeSegs allow [] (splitPath ?tmp) = segs @ [t]"
  proof -
    have "normalizeSegs allow [] (splitPath ?tmp) = normalizeSegs allow [] (segs @ [t])"
      using sp_q by (auto simp: pre_def splitPath_append_slash [of "[]", simplified])
    also have "\<dots> = segs @ [t]"
      using normalizeSegs_fixed [of allow "[]" "segs @ [t]"] nf by simp
    finally show ?thesis .
  qed
  have join2: "joinWith ''/'' (filter (\<lambda>x. x \<noteq> []) [?tmp, name]) = ?tmp @ ''/'' @ name"
    using tmp_ne nm by simp
  have "path_join ?tmp name = path_normalize (?tmp @ ''/'' @ name)"
    using tmp_ne unfolding path_join_def join2 Let_def by simp
  also have "\<dots> = (if hd ?tmp = CHR ''/'' then ''/'' else []) @
         joinWith ''/'' (normalizeSegs (hd ?tmp \<noteq> CHR ''/'') [] (splitPath ?tmp) @ [name])"
    using tmp_ne assms(2) by (rule path_normalize_child)
  also have "\<dots> = pre @ joinWith ''/'' ((segs @ [t]) @ [name])"
    using hd_tmp sp_tmp by (auto simp: pre_def)
  also have "\<dots> = ?tmp @ ''/'' @ name"
  proof -
    have "joinWith ''/'' ((segs @ [t]) @ [name]) = joinWith ''/'' (segs @ [t]) @ ''/'' @ name"
      by (rule joinWith_snoc) simp
    then show ?thesis by simp
  qed
  finally show ?thesis using tmp by simp
qed

lemma chapter_file_name_plain:
  "CHR ''/'' \<notin> set vt \<Longrightarrow> CHR ''/'' \<notin> set ct \<Longrightarrow> plainSeg (vt @ '' - '' @ ct @ ''.mp4'')"
  by (auto simp: plainSeg_def append_eq_Cons_conv Cons_eq_append_conv)

lemma tempDownloadDir_child:
  "plainSeg name \<Longrightarrow> path_join (tempDownloadDir cfg) name = tempDownloadDir cfg @ ''/'' @ name"
  unfolding tempDownloadDir_def by (rule path_join_child) (simp_all add: plainSeg_def)

section \<open>The claims\<close>

text \<open>
  C1 does not hold of the code. \<open>validateUrl\<close> answers \<open>false\<close> for a string that does
  not parse and raises nothing, and downloadVideo drops the answer: for the string
  \<open>invalid-url\<close> the staging directory is created and the downloader is started on
  it, and the error that ends the call is the downloader's.
\<close>

theorem malformed_url_reaches_downloader:
  "validateUrl (sampleEnv (Some 1) ''ERROR: bad url'' [] (Some 1)) ''invalid-url'' = False
   \<and> downloadVideo (sampleEnv (Some 1) ''ERROR: bad url'' [] (Some 1)) ''invalid-url''
         sampleConfig None None None None sampleWorld
     = (Inl (Error (''Download failed: Failed with exit code: 1'' @ [CHR 0x0A] @
                    ''Stdout: '' @ [CHR 0x0A] @ ''Stderr: ERROR: bad url'')),
        \<lparr>files = [(''/dl'', Dir)],
         trace = [Mkdir ''/dl/temp_yt_dlp_downloads'',
                  Spawn ''yt-dlp''
                    [''--progress'', ''--newline'', ''--no-mtime'', ''invalid-url'', ''-f'',
                     ''bestvideo[height>=720]+bestaudio/best[height>=720]/best'']
                    (Some ''/dl/temp_yt_dlp_downloads''),
                  Rm ''/dl/temp_yt_dlp_downloads'']\<rparr>)"
  by (simp add: stage_defs platform_defs format_defs sample_defs failureMessage_def
        showCode_def showNat.simps)

text \<open>
  C2. Whatever the inputs, the processes and the filesystem, and on whichever path the call
  ends, the staging directory does not exist when downloadVideo hands back its result or its
  error; a second call on the world the first one left, against the same destination
  directory, ends in the same way.
\<close>

theorem staging_removed_on_every_exit:
  "\<not> existsSync (files (snd (downloadVideo ev url cfg resolution startTime endTime chapter w)))
       (tempDownloadDir cfg)
   \<and> \<not> existsSync
       (files (snd (downloadVideo ev' url' cfg resolution' startTime' endTime' chapter'
                      (snd (downloadVideo ev url cfg resolution startTime endTime chapter w)))))
       (tempDownloadDir cfg)"
  by (simp add: downloadVideo_world cleanup_removes)

text \<open>
  C3. For an address that parses, the format expression is fixed by the platform class of
  its host name and the resolution: on a recognised platform (the host name contains
  youtube.com or youtu.be) 480p, 1080p and best have their own expressions and every other
  value, 720p included, gives the 720p expression; elsewhere 480p and best have their own
  expressions and every other value gives the expression preferring at least 720 lines.
  The expression for the resolution the caller asks for is the one downloadVideo hands to
  the downloader after \<open>-f\<close> when no time range and no chapter is asked for, and
  without a resolution it is the expression for 720p.
\<close>

theorem format_expression_table:
  assumes "hostname_of ev url = Some h"
  shows "let table = (\<lambda>res.
           if str_includes h ''youtube.com'' \<or> str_includes h ''youtu.be'' then
             (if res = ''480p'' then ''bestvideo[height<=480]+bestaudio/best[height<=480]/best''
              else if res = ''1080p''
                then ''bestvideo[height<=1080]+bestaudio/best[height<=1080]/best''
              else if res = ''best'' then ''bestvideo+bestaudio/best''
              else ''bestvideo[height<=720]+bestaudio/best[height<=720]/best'')
           else
             (if res = ''480p'' then ''worst[height>=480]/best[height<=480]/worst''
              else if res = ''best'' then ''bestvideo+bestaudio/best''
              else ''bestvideo[height>=720]+bestaudio/best[height>=720]/best''))
         in selectFormat ev url res = table res
          \<and> Spawn ''yt-dlp''
               [''--progress'', ''--newline'', ''--no-mtime'', url, ''-f'', table res]
               (Some (tempDownloadDir cfg))
             \<in> set (trace (snd (downloadVideo ev url cfg (Some res) None None None w)))
          \<and> Spawn ''yt-dlp''
               [''--progress'', ''--newline'', ''--no-mtime'', url, ''-f'', table ''720p'']
               (Some (tempDownloadDir cfg))
             \<in> set (trace (snd (downloadVideo ev url cfg None None None None w)))"
proof -
  have table: "selectFormat ev url r =
     (if str_includes h ''youtube.com'' \<or> str_includes h ''youtu.be'' then
        (if r = ''480p'' then ''bestvideo[height<=480]+bestaudio/best[height<=480]/best''
         else if r = ''1080p'' then ''bestvideo[height<=1080]+bestaudio/best[height<=1080]/best''
         else if r = ''best'' then ''bestvideo+bestaudio/best''
         else ''bestvideo[height<=720]+bestaudio/best[height<=720]/best'')
      else
        (if r = ''480p'' then ''worst[height>=480]/best[height<=480]/worst''
         else if r = ''best'' then ''bestvideo+bestaudio/best''
         else ''bestvideo[height>=720]+bestaudio/best[height>=720]/best''))" for r
    using assms by (simp add: selectFormat_def isYouTubeUrl_def youtubeFormat_def otherFormat_def)
  have spawned: "Spawn ''yt-dlp''
        [''--progress'', ''--newline'', ''--no-mtime'', url, ''-f'',
         selectFormat ev url (resolutionOrDefault resolution)]
        (Some (tempDownloadDir cfg))
      \<in> set (trace (snd (downloadVideo ev url cfg resolution None None None w)))" for resolution
  proof -
    have "downloadArgs url (selectFormat ev url (resolutionOrDefault resolution)) None None None =
          [''--progress'', ''--newline'', ''--no-mtime'', url, ''-f'',
           selectFormat ev url (resolutionOrDefault resolution)]"
      by (simp add: downloadArgs_def truthy_def splice_def)
    with downloadVideo_spawns_downloader [of url ev resolution None None None cfg w]
    show ?thesis by simp
  qed
  have asked: "resolutionOrDefault (Some res) = res" and dflt: "resolutionOrDefault None = ''720p''"
    by (simp_all add: resolutionOrDefault_def)
  from spawned [of "Some res"] spawned [of None] show ?thesis
    unfolding asked dflt Let_def table by simp
qed

theorem format_expression_table_witness:
  "hostname_of (sampleEnv (Some 0) [] [''video.mp4''] (Some 0))
     ''https://www.youtube.com/watch?v=jNQXAC9IVRw'' = Some ''www.youtube.com''
   \<and> hostname_of (sampleEnv (Some 0) [] [''video.mp4''] (Some 0))
     ''https://example.com/clip'' = Some ''example.com''
   \<and> Spawn ''yt-dlp''
        [''--progress'', ''--newline'', ''--no-mtime'',
         ''https://www.youtube.com/watch?v=jNQXAC9IVRw'', ''-f'',
         ''bestvideo[height<=1080]+bestaudio/best[height<=1080]/best'']
        (Some ''/dl/temp_yt_dlp_downloads'')
      \<in> set (trace (snd (downloadVideo (sampleEnv (Some 0) [] [''video.mp4''] (Some 0))
                     ''https://www.youtube.com/watch?v=jNQXAC9IVRw'' sampleConfig
                     (Some ''1080p'') None None None sampleWorld)))
   \<and> Spawn ''yt-dlp''
        [''--progress'', ''--newline'', ''--no-mtime'',
         ''https://www.youtube.com/watch?v=jNQXAC9IVRw'', ''-f'',
         ''bestvideo[height<=720]+bestaudio/best[height<=720]/best'']
        (Some ''/dl/temp_yt_dlp_downloads'')
      \<in> set (trace (snd (downloadVideo (sampleEnv (Some 0) [] [''video.mp4''] (Some 0))
                     ''https://www.youtube.com/watch?v=jNQXAC9IVRw'' sampleConfig
                     None None None None sampleWorld)))
   \<and> Spawn ''yt-dlp''
        [''--progress'', ''--newline'', ''--no-mtime'', ''https://example.com/clip'', ''-f'',
         ''bestvideo[height>=720]+bestaudio/best[height>=720]/best'']
        (Some ''/dl/temp_yt_dlp_downloads'')
      \<in> set (trace (snd (downloadVideo (sampleEnv (Some 0) [] [''video.mp4''] (Some 0))
                     ''https://example.com/clip'' sampleConfig
                     (Some ''1080p'') None None None sampleWorld)))
   \<and> selectFormat (sampleEnv (Some 0) [] [''video.mp4''] (Some 0))
       ''https://example.com/clip'' ''480p'' = ''worst[height>=480]/best[height<=480]/worst''"
proof -
  let ?ev = "sampleEnv (Some 0) [] [''video.mp4''] (Some 0)"
  let ?yt = "''https://www.youtube.com/watch?v=jNQXAC9IVRw''"
  let ?other = "''https://example.com/clip''"
  have yt: "hostname_of ?ev ?yt = Some ''www.youtube.com''"
    by (simp add: sample_defs)
  have other: "hostname_of ?ev ?other = Some ''example.com''"
    by (simp add: sample_defs)
  have tmp: "tempDownloadDir sampleConfig = ''/dl/temp_yt_dlp_downloads''"
    by (simp add: platform_defs sample_defs)
  from format_expression_table [OF yt, of "''1080p''" sampleConfig sampleWorld]
       format_expression_table [OF other, of "''1080p''" sampleConfig sampleWorld]
       format_expression_table [OF other, of "''480p''" sampleConfig sampleWorld]
       yt other
  show ?thesis
    unfolding tmp Let_def by simp
qed

text \<open>
  C4. An option is set when the caller gives it a value that JavaScript counts as true, a
  non-empty string; this is the test the code makes. For an absolute URL, which has a colon
  after its scheme: when startTime, endTime or chapter is set, the argument list that the
  downloader is started with contains neither \<open>-f\<close> nor the format expression; the
  pair \<open>-f <format>\<close> occurs in the list exactly when none of the three is set, and so
  does each of its two entries.
\<close>

theorem format_flag_only_without_sections:
  fixes ev url cfg resolution startTime endTime ch w
  defines "format \<equiv> selectFormat ev url (resolutionOrDefault resolution)"
  defines "args \<equiv> downloadArgs url format startTime endTime ch"
  assumes "CHR '':'' \<in> set url"
  shows "(truthy startTime \<or> truthy endTime \<or> truthy ch \<longrightarrow>
            ''-f'' \<notin> set args \<and> format \<notin> set args)
       \<and> (\<exists>pre post. args = pre @ [''-f'', format] @ post)
           = (\<not> truthy startTime \<and> \<not> truthy endTime \<and> \<not> truthy ch)
       \<and> (''-f'' \<in> set args)
           = (\<not> truthy startTime \<and> \<not> truthy endTime \<and> \<not> truthy ch)
       \<and> (format \<in> set args)
           = (\<not> truthy startTime \<and> \<not> truthy endTime \<and> \<not> truthy ch)
       \<and> Spawn ''yt-dlp'' args (Some (tempDownloadDir cfg))
           \<in> set (trace (snd (downloadVideo ev url cfg resolution startTime endTime ch w)))"
proof -
  let ?none = "\<not> truthy startTime \<and> \<not> truthy endTime \<and> \<not> truthy ch"
  have spawned: "Spawn ''yt-dlp'' args (Some (tempDownloadDir cfg))
           \<in> set (trace (snd (downloadVideo ev url cfg resolution startTime endTime ch w)))"
    unfolding args_def format_def by (rule downloadVideo_spawns_downloader)
  have shape: "args =
       [''--progress'', ''--newline'', ''--no-mtime'', url] @
       (if truthy startTime \<or> truthy endTime \<or> truthy ch then [] else [''-f'', format]) @
       (if truthy startTime \<or> truthy endTime
        then [''--postprocessor-args'',
              ''ffmpeg_downloader: '' @
                joinWith '' '' (sectionArg ''-ss'' startTime @ sectionArg ''-to'' endTime)]
        else [])"
    unfolding args_def by (rule downloadArgs_shape)
  from selectFormat_is_no_flag [of ev url "resolutionOrDefault resolution"]
  have fmt: "format \<noteq> ''-f''" "format \<noteq> ''--postprocessor-args''"
    "\<And>x. format \<noteq> ''ffmpeg_downloader: '' @ x"
    "format \<noteq> ''--progress''" "format \<noteq> ''--newline''" "format \<noteq> ''--no-mtime''"
    unfolding format_def by (simp_all add: selectFormat_def youtubeFormat_def otherFormat_def)
  have "CHR '':'' \<notin> set format"
    unfolding format_def by (rule selectFormat_has_no_colon)
  with assms(3) have url: "url \<noteq> ''-f''" "url \<noteq> format" by auto
  have flag: "(''-f'' \<in> set args) = ?none"
    using url by (auto simp: shape)
  have expr: "(format \<in> set args) = ?none"
    using url fmt by (auto simp: shape)
  have pair: "(\<exists>pre post. args = pre @ [''-f'', format] @ post) = ?none"
  proof
    assume "\<exists>pre post. args = pre @ [''-f'', format] @ post"
    then have "''-f'' \<in> set args" by auto
    with flag show ?none by simp
  next
    assume ?none
    then have "args = [''--progress'', ''--newline'', ''--no-mtime'', url] @ [''-f'', format] @ []"
      by (simp add: shape)
    then show "\<exists>pre post. args = pre @ [''-f'', format] @ post" by blast
  qed
  from flag expr pair spawned show ?thesis by blast
qed

theorem format_flag_only_without_sections_witness:
  "CHR '':'' \<in> set ''https://example.com/clip''
   \<and> truthy (Some ''00:00:05'')
   \<and> ''-f'' \<notin> set [''--progress'', ''--newline'', ''--no-mtime'', ''https://example.com/clip'',
                       ''--postprocessor-args'', ''ffmpeg_downloader: -ss 00:00:05 -to 00:00:10'']
   \<and> Spawn ''yt-dlp''
        [''--progress'', ''--newline'', ''--no-mtime'', ''https://example.com/clip'',
         ''--postprocessor-args'', ''ffmpeg_downloader: -ss 00:00:05 -to 00:00:10'']
        (Some ''/dl/temp_yt_dlp_downloads'')
      \<in> set (trace (snd (downloadVideo (sampleEnv (Some 0) [] [''video.mp4''] (Some 0))
                     ''https://example.com/clip'' sampleConfig None
                     (Some ''00:00:05'') (Some ''00:00:10'') None sampleWorld)))
   \<and> Spawn ''yt-dlp''
        [''--progress'', ''--newline'', ''--no-mtime'', ''https://example.com/clip'', ''-f'',
         ''bestvideo[height>=720]+bestaudio/best[height>=720]/best'']
        (Some ''/dl/temp_yt_dlp_downloads'')
      \<in> set (trace (snd (downloadVideo (sampleEnv (Some 0) [] [''video.mp4''] (Some 0))
                     ''https://example.com/clip'' sampleConfig None None None None
                     sampleWorld)))"
proof -
  let ?ev = "sampleEnv (Some 0) [] [''video.mp4''] (Some 0)"
  let ?url = "''https://example.com/clip''"
  have colon: "CHR '':'' \<in> set ?url" by simp
  have set: "truthy (Some ''00:00:05'')" by (simp add: truthy_def)
  have tmp: "tempDownloadDir sampleConfig = ''/dl/temp_yt_dlp_downloads''"
    by (simp add: platform_defs sample_defs)
  have ranged: "downloadArgs ?url (selectFormat ?ev ?url (resolutionOrDefault None))
                  (Some ''00:00:05'') (Some ''00:00:10'') None
        = [''--progress'', ''--newline'', ''--no-mtime'', ?url,
           ''--postprocessor-args'', ''ffmpeg_downloader: -ss 00:00:05 -to 00:00:10'']"
    by (simp add: format_defs)
  have plain: "downloadArgs ?url (selectFormat ?ev ?url (resolutionOrDefault None)) None None None
        = [''--progress'', ''--newline'', ''--no-mtime'', ?url, ''-f'',
           ''bestvideo[height>=720]+bestaudio/best[height>=720]/best'']"
    by (simp add: format_defs sample_defs)
  from format_flag_only_without_sections
         [where url = "?url" and ev = "?ev" and resolution = None
            and startTime = "Some ''00:00:05''" and endTime = "Some ''00:00:10''"
            and ch = None and cfg = sampleConfig and w = sampleWorld, OF colon]
       format_flag_only_without_sections
         [where url = "?url" and ev = "?ev" and resolution = None
            and startTime = None and endTime = None
            and ch = None and cfg = sampleConfig and w = sampleWorld, OF colon]
       colon set
  show ?thesis
    unfolding ranged plain tmp by simp
qed

text \<open>
  C5, as the code has it. The argument list is, in order: the progress flag, the flag for
  line-wise progress output, the flag that leaves the modification time alone, the URL,
  then the pair \<open>-f <format>\<close> when none of startTime, endTime and chapter is a non-empty
  string, and last, when a start or an end time is a non-empty string, the flag
  \<open>--postprocessor-args\<close> with one argument that passes \<open>-ss <start>\<close> and/or
  \<open>-to <end>\<close> on to \<open>ffmpeg_downloader\<close>. This is the list the downloader is started
  with.
\<close>

theorem download_arguments_in_order:
  "downloadArgs url format startTime endTime ch =
     [''--progress'', ''--newline'', ''--no-mtime'', url] @
     (if truthy startTime \<or> truthy endTime \<or> truthy ch then [] else [''-f'', format]) @
     (if truthy startTime \<or> truthy endTime
      then [''--postprocessor-args'',
            ''ffmpeg_downloader: '' @
              joinWith '' '' (sectionArg ''-ss'' startTime @ sectionArg ''-to'' endTime)]
      else [])
   \<and> Spawn ''yt-dlp''
        (downloadArgs url (selectFormat ev url (resolutionOrDefault resolution))
           startTime endTime ch)
        (Some (tempDownloadDir cfg))
      \<in> set (trace (snd (downloadVideo ev url cfg resolution startTime endTime ch w)))"
  using downloadArgs_shape [of url format startTime endTime ch]
    downloadVideo_spawns_downloader [of url ev resolution startTime endTime ch cfg w]
  by simp

theorem download_arguments_in_order_witness:
  "downloadArgs ''https://example.com/clip'' ''bestvideo+bestaudio/best''
     (Some ''00:00:05'') (Some ''00:00:10'') None
   = [''--progress'', ''--newline'', ''--no-mtime'', ''https://example.com/clip'',
      ''--postprocessor-args'', ''ffmpeg_downloader: -ss 00:00:05 -to 00:00:10'']
   \<and> downloadArgs ''https://example.com/clip'' ''bestvideo+bestaudio/best'' None None None
   = [''--progress'', ''--newline'', ''--no-mtime'', ''https://example.com/clip'',
      ''-f'', ''bestvideo+bestaudio/best'']"
  using download_arguments_in_order
          [of "''https://example.com/clip''" "''bestvideo+bestaudio/best''"
              "Some ''00:00:05''" "Some ''00:00:10''" None]
        download_arguments_in_order
          [of "''https://example.com/clip''" "''bestvideo+bestaudio/best''" None None None]
  by (simp add: truthy_def sectionArg_def)

text \<open>
  C5, as the claim states it, fails on the order: the pair \<open>-f <format>\<close> is inserted at
  index 4 of a list of four entries, so it comes after the URL and not before it. For the
  address of the test suite and the resolution 1080p the downloader is started with the
  URL in fourth place and \<open>-f\<close> in fifth.
\<close>

theorem format_flag_follows_url:
  "downloadArgs ''https://www.youtube.com/watch?v=jNQXAC9IVRw''
     (selectFormat (sampleEnv (Some 0) [] [''video.mp4''] (Some 0))
        ''https://www.youtube.com/watch?v=jNQXAC9IVRw'' (resolutionOrDefault (Some ''1080p'')))
     None None None
   = [''--progress'', ''--newline'', ''--no-mtime'',
      ''https://www.youtube.com/watch?v=jNQXAC9IVRw'', ''-f'',
      ''bestvideo[height<=1080]+bestaudio/best[height<=1080]/best'']
   \<and> trace (snd (downloadVideo (sampleEnv (Some 0) [] [''video.mp4''] (Some 0))
                  ''https://www.youtube.com/watch?v=jNQXAC9IVRw'' sampleConfig (Some ''1080p'')
                  None None None sampleWorld))
   = [Mkdir ''/dl/temp_yt_dlp_downloads'',
      Spawn ''yt-dlp''
        [''--progress'', ''--newline'', ''--no-mtime'',
         ''https://www.youtube.com/watch?v=jNQXAC9IVRw'', ''-f'',
         ''bestvideo[height<=1080]+bestaudio/best[height<=1080]/best'']
        (Some ''/dl/temp_yt_dlp_downloads''),
      Rename ''/dl/temp_yt_dlp_downloads/video.mp4'' ''/dl/video.mp4'',
      Rm ''/dl/temp_yt_dlp_downloads'']"
  by (simp add: stage_defs platform_defs format_defs sample_defs successMessage_def)

text \<open>
  C6, as the code has it. When the external downloader ends with status zero, the
  chapter stage that follows ends without an error, and the staging directory then holds
  no entry, downloadVideo fails with the error \<open>No files were downloaded by yt-dlp.\<close>,
  and the world it leaves is the one those stages left with the staging directory
  removed. When no chapter filter is set the chapter stage does nothing and cannot fail.
\<close>

theorem empty_staging_is_a_failure:
  fixes ev url cfg resolution startTime endTime ch w w3
  defines "w1 \<equiv> snd (ensureTempDir (tempDownloadDir cfg) w)"
      and "args \<equiv> downloadArgs url (selectFormat ev url (resolutionOrDefault resolution))
                     startTime endTime ch"
  defines "r \<equiv> run ev (length (trace w1)) ''yt-dlp'' args (Some (tempDownloadDir cfg)) (files w1)"
      and "w2 \<equiv> snd (runDownload ev args (tempDownloadDir cfg) w1)"
      and "result \<equiv> downloadVideo ev url cfg resolution startTime endTime ch w"
  assumes "exit_code r = Some 0"
      and "splitChapters ev url (tempDownloadDir cfg) ch w2 = (Inr (), w3)"
      and "readdirSync (tempDownloadDir cfg) (files w3) = Inr []"
  shows "fst result = Inl (Error ''No files were downloaded by yt-dlp.'')
       \<and> snd result = w3\<lparr>files := rmSync (tempDownloadDir cfg) (files w3),
                           trace := trace w3 @ [Rm (tempDownloadDir cfg)]\<rparr>
       \<and> \<not> existsSync (files (snd result)) (tempDownloadDir cfg)
       \<and> (\<not> truthy ch \<longrightarrow> splitChapters ev url (tempDownloadDir cfg) ch w2 = (Inr (), w2))"
proof -
  let ?tmp = "tempDownloadDir cfg"
  have "fst (runDownload ev args ?tmp w1) = Inr ()"
    using assms(6) unfolding r_def by (simp add: runDownload_result)
  then have dl: "runDownload ev args ?tmp w1 = (Inr (), w2)"
    unfolding w2_def by (cases "runDownload ev args ?tmp w1") simp
  have there: "existsSync (files w3) ?tmp"
    using assms(8) by (auto simp: readdirSync_def existsSync_def split: option.splits)
  have res: "result = (Inl noFilesDownloaded, cleanup ?tmp w3)"
    using dl assms(7,8) unfolding result_def args_def w1_def
    by (simp add: downloadVideo_unfold moveDownloaded_def)
  have world: "cleanup ?tmp w3 = w3\<lparr>files := rmSync ?tmp (files w3), trace := trace w3 @ [Rm ?tmp]\<rparr>"
    using there by (simp add: cleanup_def emit_def)
  have idle: "\<not> truthy ch \<longrightarrow> splitChapters ev url ?tmp ch w2 = (Inr (), w2)"
    by (auto simp: splitChapters_def truthy_def split: option.splits)
  from res world idle cleanup_removes [of ?tmp w3] show ?thesis
    by (simp add: noFilesDownloaded_def)
qed

theorem empty_staging_is_a_failure_witness:
  "exit_code (run (sampleEnv (Some 0) ''WARNING: x'' [] (Some 0)) 1 ''yt-dlp''
       [''--progress'', ''--newline'', ''--no-mtime'', ''https://example.com/clip'',
        ''-f'', ''bestvideo[height>=720]+bestaudio/best[height>=720]/best'']
       (Some ''/dl/temp_yt_dlp_downloads'')
       [(''/dl'', Dir), (''/dl/temp_yt_dlp_downloads'', Dir)]) = Some 0
   \<and> readdirSync (tempDownloadDir sampleConfig)
         [(''/dl'', Dir), (''/dl/temp_yt_dlp_downloads'', Dir)] = Inr []
   \<and> downloadVideo (sampleEnv (Some 0) ''WARNING: x'' [] (Some 0)) ''https://example.com/clip''
         sampleConfig None None None None sampleWorld
     = (Inl (Error ''No files were downloaded by yt-dlp.''),
        \<lparr>files = [(''/dl'', Dir)],
         trace = [Mkdir ''/dl/temp_yt_dlp_downloads'',
                  Spawn ''yt-dlp''
                    [''--progress'', ''--newline'', ''--no-mtime'', ''https://example.com/clip'',
                     ''-f'', ''bestvideo[height>=720]+bestaudio/best[height>=720]/best'']
                    (Some ''/dl/temp_yt_dlp_downloads''),
                  ConsoleError [''yt-dlp stderr:'', ''WARNING: x''],
                  Rm ''/dl/temp_yt_dlp_downloads'']\<rparr>)"
proof -
  let ?ev = "sampleEnv (Some 0) ''WARNING: x'' [] (Some 0)"
  let ?url = "''https://example.com/clip''"
  let ?tmp = "tempDownloadDir sampleConfig"
  let ?w1 = "snd (ensureTempDir ?tmp sampleWorld)"
  let ?args = "downloadArgs ?url (selectFormat ?ev ?url (resolutionOrDefault None)) None None None"
  let ?w3 = "\<lparr>files = [(''/dl'', Dir), (''/dl/temp_yt_dlp_downloads'', Dir)],
         trace = [Mkdir ''/dl/temp_yt_dlp_downloads'',
                  Spawn ''yt-dlp''
                    [''--progress'', ''--newline'', ''--no-mtime'', ''https://example.com/clip'',
                     ''-f'', ''bestvideo[height>=720]+bestaudio/best[height>=720]/best'']
                    (Some ''/dl/temp_yt_dlp_downloads''),
                  ConsoleError [''yt-dlp stderr:'', ''WARNING: x'']]\<rparr>"
  have code: "exit_code (run ?ev (length (trace ?w1)) ''yt-dlp'' ?args (Some ?tmp) (files ?w1)) = Some 0"
    by (simp add: sample_defs)
  have code': "exit_code (run ?ev 1 ''yt-dlp''
       [''--progress'', ''--newline'', ''--no-mtime'', ''https://example.com/clip'',
        ''-f'', ''bestvideo[height>=720]+bestaudio/best[height>=720]/best'']
       (Some ''/dl/temp_yt_dlp_downloads'')
       [(''/dl'', Dir), (''/dl/temp_yt_dlp_downloads'', Dir)]) = Some 0"
    by (simp add: sample_defs)
  have sc: "splitChapters ?ev ?url ?tmp None (snd (runDownload ?ev ?args ?tmp ?w1)) = (Inr (), ?w3)"
    by (simp add: stage_defs platform_defs format_defs sample_defs)
  have rd: "readdirSync ?tmp (files ?w3) = Inr []"
    by (simp add: platform_defs sample_defs)
  have tmp: "?tmp = ''/dl/temp_yt_dlp_downloads''"
    by (simp add: platform_defs sample_defs)
  from empty_staging_is_a_failure [OF code sc rd] code' rd show ?thesis
    by (simp add: tmp rmSync_def below_def prod_eq_iff)
qed

text \<open>
  C6, as the claim states it, fails when a chapter filter is set: the downloader ends with
  status zero and stages nothing, the metadata query ends with status one, and the call
  fails with the error of that query, not with the error for an empty staging directory.
\<close>

theorem empty_staging_counterexample:
  "exit_code (run (sampleEnv (Some 0) [] [] (Some 1)) 1 ''yt-dlp''
       [''--progress'', ''--newline'', ''--no-mtime'', ''https://example.com/clip'']
       (Some ''/dl/temp_yt_dlp_downloads'')
       [(''/dl'', Dir), (''/dl/temp_yt_dlp_downloads'', Dir)]) = Some 0
   \<and> snd (splitChapters (sampleEnv (Some 0) [] [] (Some 1)) ''https://example.com/clip''
         ''/dl/temp_yt_dlp_downloads'' (Some ''Main'')
         \<lparr>files = [(''/dl'', Dir), (''/dl/temp_yt_dlp_downloads'', Dir)],
          trace = [Mkdir ''/dl/temp_yt_dlp_downloads'',
                   Spawn ''yt-dlp''
                     [''--progress'', ''--newline'', ''--no-mtime'', ''https://example.com/clip'']
                     (Some ''/dl/temp_yt_dlp_downloads'')]\<rparr>)
     = \<lparr>files = [(''/dl'', Dir), (''/dl/temp_yt_dlp_downloads'', Dir)],
        trace = [Mkdir ''/dl/temp_yt_dlp_downloads'',
                 Spawn ''yt-dlp''
                   [''--progress'', ''--newline'', ''--no-mtime'', ''https://example.com/clip'']
                   (Some ''/dl/temp_yt_dlp_downloads''),
                 Spawn ''yt-dlp'' [''--print-json'', ''https://example.com/clip''] None]\<rparr>
   \<and> readdirSync ''/dl/temp_yt_dlp_downloads''
         [(''/dl'', Dir), (''/dl/temp_yt_dlp_downloads'', Dir)] = Inr []
   \<and> downloadVideo (sampleEnv (Some 0) [] [] (Some 1)) ''https://example.com/clip''
         sampleConfig None None None (Some ''Main'') sampleWorld
     = (Inl (Error (''Failed with exit code: 1'' @ [CHR 0x0A] @ ''Stdout: {}'' @ [CHR 0x0A] @
                    ''Stderr: '')),
        \<lparr>files = [(''/dl'', Dir)],
         trace = [Mkdir ''/dl/temp_yt_dlp_downloads'',
                  Spawn ''yt-dlp''
                    [''--progress'', ''--newline'', ''--no-mtime'', ''https://example.com/clip'']
                    (Some ''/dl/temp_yt_dlp_downloads''),
                  Spawn ''yt-dlp'' [''--print-json'', ''https://example.com/clip''] None,
                  Rm ''/dl/temp_yt_dlp_downloads'']\<rparr>)"
  by (simp add: stage_defs platform_defs format_defs sample_defs failureMessage_def
        showCode_def showNat.simps)

text \<open>
  C7, as the code has it. When a chapter filter is given, the download has succeeded and the
  metadata query then ends with a status other than zero, downloadVideo fails with the
  error of that query; the call moves nothing into the destination directory, and the
  staging directory is removed together with whatever the download had staged in it.
\<close>

theorem failed_metadata_fetch_discards_staged_files:
  fixes ev url cfg resolution startTime endTime ch w w2
  defines "w1 \<equiv> snd (ensureTempDir (tempDownloadDir cfg) w)"
      and "args \<equiv> downloadArgs url (selectFormat ev url (resolutionOrDefault resolution))
                     startTime endTime ch"
      and "r2 \<equiv> run ev (length (trace w2)) ''yt-dlp'' [''--print-json'', url] None (files w2)"
  defines "result \<equiv> downloadVideo ev url cfg resolution startTime endTime ch w"
  assumes "truthy ch"
      and "runDownload ev args (tempDownloadDir cfg) w1 = (Inr (), w2)"
      and "exit_code r2 \<noteq> Some 0"
  shows "fst result = Inl (Error (failureMessage r2))
       \<and> renames (trace (snd result)) = renames (trace w)
       \<and> files (snd result) =
           (if existsSync (files_after r2) (tempDownloadDir cfg)
            then rmSync (tempDownloadDir cfg) (files_after r2) else files_after r2)
       \<and> \<not> existsSync (files (snd result)) (tempDownloadDir cfg)"
proof -
  let ?tmp = "tempDownloadDir cfg"
  let ?w3 = "w2\<lparr>trace := trace w2 @ [Spawn ''yt-dlp'' [''--print-json'', url] None],
               files := files_after r2\<rparr>"
  have sc: "splitChapters ev url ?tmp ch w2 = (Inl (Error (failureMessage r2)), ?w3)"
    using assms(5,7) unfolding r2_def by (rule splitChapters_fetch_failed)
  have res: "result = (Inl (Error (failureMessage r2)), cleanup ?tmp ?w3)"
    using assms(6) sc unfolding result_def args_def w1_def
    by (simp add: downloadVideo_unfold)
  have "renames (trace w2) = renames (trace w1)"
    using runDownload_renames [of ev args ?tmp w1] assms(6) by simp
  also have "\<dots> = renames (trace w)"
    unfolding w1_def by (rule ensureTempDir_renames)
  finally have mv: "renames (trace (cleanup ?tmp ?w3)) = renames (trace w)"
    by (simp add: cleanup_def renames_append)
  have fs: "files (cleanup ?tmp ?w3) =
           (if existsSync (files_after r2) ?tmp then rmSync ?tmp (files_after r2)
            else files_after r2)"
    by (simp add: cleanup_def)
  from res mv fs cleanup_removes [of ?tmp ?w3] show ?thesis by simp
qed

theorem failed_metadata_fetch_discards_staged_files_witness:
  "truthy (Some ''Main'')
   \<and> runDownload (sampleEnv (Some 0) [] [''video.mp4''] (Some 1))
         [''--progress'', ''--newline'', ''--no-mtime'', ''https://example.com/clip'']
         ''/dl/temp_yt_dlp_downloads''
         \<lparr>files = [(''/dl'', Dir), (''/dl/temp_yt_dlp_downloads'', Dir)],
          trace = [Mkdir ''/dl/temp_yt_dlp_downloads'']\<rparr>
       = (Inr (),
          \<lparr>files = [(''/dl'', Dir), (''/dl/temp_yt_dlp_downloads'', Dir),
                    (''/dl/temp_yt_dlp_downloads/video.mp4'', File)],
           trace = [Mkdir ''/dl/temp_yt_dlp_downloads'',
                    Spawn ''yt-dlp''
                      [''--progress'', ''--newline'', ''--no-mtime'', ''https://example.com/clip'']
                      (Some ''/dl/temp_yt_dlp_downloads'')]\<rparr>)
   \<and> fst (downloadVideo (sampleEnv (Some 0) [] [''video.mp4''] (Some 1))
            ''https://example.com/clip'' sampleConfig None None None (Some ''Main'') sampleWorld)
       = Inl (Error (''Failed with exit code: 1'' @ [CHR 0x0A] @ ''Stdout: {}'' @ [CHR 0x0A] @
                     ''Stderr: ''))
   \<and> renames (trace (snd (downloadVideo (sampleEnv (Some 0) [] [''video.mp4''] (Some 1))
            ''https://example.com/clip'' sampleConfig None None None (Some ''Main'') sampleWorld)))
       = []
   \<and> files (snd (downloadVideo (sampleEnv (Some 0) [] [''video.mp4''] (Some 1))
            ''https://example.com/clip'' sampleConfig None None None (Some ''Main'') sampleWorld))
       = [(''/dl'', Dir)]"
proof -
  let ?ev = "sampleEnv (Some 0) [] [''video.mp4''] (Some 1)"
  let ?url = "''https://example.com/clip''"
  let ?w1 = "\<lparr>files = [(''/dl'', Dir), (''/dl/temp_yt_dlp_downloads'', Dir)],
          trace = [Mkdir ''/dl/temp_yt_dlp_downloads'']\<rparr>"
  let ?w2 = "\<lparr>files = [(''/dl'', Dir), (''/dl/temp_yt_dlp_downloads'', Dir),
                    (''/dl/temp_yt_dlp_downloads/video.mp4'', File)],
           trace = [Mkdir ''/dl/temp_yt_dlp_downloads'',
                    Spawn ''yt-dlp''
                      [''--progress'', ''--newline'', ''--no-mtime'', ?url]
                      (Some ''/dl/temp_yt_dlp_downloads'')]\<rparr>"
  have tmp: "tempDownloadDir sampleConfig = ''/dl/temp_yt_dlp_downloads''"
    by (simp add: platform_defs sample_defs)
  have t: "truthy (Some ''Main'')" by (simp add: truthy_def)
  have dl: "runDownload ?ev [''--progress'', ''--newline'', ''--no-mtime'', ?url]
              ''/dl/temp_yt_dlp_downloads'' ?w1 = (Inr (), ?w2)"
    by (simp add: stage_defs sample_defs)
  have staged: "runDownload ?ev
              (downloadArgs ?url (selectFormat ?ev ?url (resolutionOrDefault None)) None None
                 (Some ''Main''))
              (tempDownloadDir sampleConfig)
              (snd (ensureTempDir (tempDownloadDir sampleConfig) sampleWorld)) = (Inr (), ?w2)"
    by (simp add: stage_defs platform_defs format_defs sample_defs)
  have code: "exit_code (run ?ev (length (trace ?w2)) ''yt-dlp'' [''--print-json'', ?url] None
                (files ?w2)) \<noteq> Some 0"
    by (simp add: sample_defs)
  from failed_metadata_fetch_discards_staged_files [OF t staged code, unfolded tmp] t dl
  show ?thesis
    by (simp add: failureMessage_def showCode_def showNat.simps existsSync_def rmSync_def
          below_def sampleEnv_def sampleRun_def sampleWorld_def)
qed

text \<open>
  C7, as the claim states it, fails: with the full video staged and the metadata query
  ending with status one, the call fails, renames nothing, and leaves the destination
  directory without the video.
\<close>

theorem failed_metadata_fetch_counterexample:
  "existsSync (files (snd (runDownload (sampleEnv (Some 0) [] [''video.mp4''] (Some 1))
         [''--progress'', ''--newline'', ''--no-mtime'', ''https://example.com/clip'']
         ''/dl/temp_yt_dlp_downloads''
         \<lparr>files = [(''/dl'', Dir), (''/dl/temp_yt_dlp_downloads'', Dir)],
          trace = [Mkdir ''/dl/temp_yt_dlp_downloads'']\<rparr>)))
      ''/dl/temp_yt_dlp_downloads/video.mp4''
   \<and> downloadVideo (sampleEnv (Some 0) [] [''video.mp4''] (Some 1))
         ''https://example.com/clip'' sampleConfig None None None (Some ''Main'') sampleWorld
     = (Inl (Error (''Failed with exit code: 1'' @ [CHR 0x0A] @ ''Stdout: {}'' @ [CHR 0x0A] @
                    ''Stderr: '')),
        \<lparr>files = [(''/dl'', Dir)],
         trace = [Mkdir ''/dl/temp_yt_dlp_downloads'',
                  Spawn ''yt-dlp''
                    [''--progress'', ''--newline'', ''--no-mtime'', ''https://example.com/clip'']
                    (Some ''/dl/temp_yt_dlp_downloads''),
                  Spawn ''yt-dlp'' [''--print-json'', ''https://example.com/clip''] None,
                  Rm ''/dl/temp_yt_dlp_downloads'']\<rparr>)
   \<and> \<not> existsSync [(''/dl'', Dir)] ''/dl/video.mp4''"
  by (simp add: stage_defs platform_defs format_defs sample_defs failureMessage_def
        showCode_def showNat.simps)

text \<open>
  C8. The run of the external downloader counts as a success exactly when the child process
  ends with status zero. Any other end (a non-zero status, or none because a signal ended
  the process) makes downloadVideo fail with the error \<open>Download failed: ...\<close>, whose
  message ends with the captured standard-error text, and nothing else makes it fail with
  that error. Standard-error text of a run that ended with status zero is written to the
  console and does not make the download stage fail.
\<close>

theorem download_succeeds_exactly_on_exit_zero:
  fixes ev url cfg resolution startTime endTime ch w
  defines "w1 \<equiv> snd (ensureTempDir (tempDownloadDir cfg) w)"
      and "args \<equiv> downloadArgs url (selectFormat ev url (resolutionOrDefault resolution))
                     startTime endTime ch"
  defines "r \<equiv> run ev (length (trace w1)) ''yt-dlp'' args (Some (tempDownloadDir cfg)) (files w1)"
      and "result \<equiv> downloadVideo ev url cfg resolution startTime endTime ch w"
  shows "((fst (runDownload ev args (tempDownloadDir cfg) w1) = Inr ()) = (exit_code r = Some 0))
       \<and> ((\<exists>m. fst result = Inl (Error (''Download failed: '' @ m))) = (exit_code r \<noteq> Some 0))
       \<and> (exit_code r \<noteq> Some 0 \<longrightarrow>
            fst result = Inl (Error (''Download failed: Failed with exit code: '' @
                showCode (exit_code r) @ [CHR 0x0A] @ ''Stdout: '' @ stdout r @ [CHR 0x0A] @
                ''Stderr: '' @ stderr r)))
       \<and> (exit_code r = Some 0 \<and> stderr r \<noteq> [] \<longrightarrow>
            ConsoleError [''yt-dlp stderr:'', stderr r] \<in> set (trace (snd result)))"
proof -
  let ?tmp = "tempDownloadDir cfg"
  have stage: "fst (runDownload ev args ?tmp w1) =
     (if exit_code r = Some 0 then Inr ()
      else Inl (Error (''Download failed: '' @ failureMessage r)))"
    unfolding r_def by (rule runDownload_result)
  have a: "(fst (runDownload ev args ?tmp w1) = Inr ()) = (exit_code r = Some 0)"
    by (simp add: stage)
  have fail: "fst result = Inl (Error (''Download failed: '' @ failureMessage r))"
    if "exit_code r \<noteq> Some 0"
  proof -
    from that stage have "fst (runDownload ev args ?tmp w1) =
        Inl (Error (''Download failed: '' @ failureMessage r))" by simp
    then show ?thesis
      unfolding result_def args_def w1_def by (rule downloadVideo_failed_download)
  qed
  have no_fail: "\<not> (\<exists>m. fst result = Inl (Error (''Download failed: '' @ m)))"
    if "exit_code r = Some 0"
  proof
    assume "\<exists>m. fst result = Inl (Error (''Download failed: '' @ m))"
    then obtain m where m: "fst result = Inl (Error (''Download failed: '' @ m))" ..
    from that stage have "fst (runDownload ev args ?tmp w1) = Inr ()" by simp
    from downloadVideo_after_download [OF this [unfolded args_def w1_def] m [unfolded result_def]]
    show False
      by (auto simp: failureMessage_def noFilesDownloaded_def)
  qed
  have b: "(\<exists>m. fst result = Inl (Error (''Download failed: '' @ m))) = (exit_code r \<noteq> Some 0)"
    using fail no_fail by blast
  have c: "exit_code r \<noteq> Some 0 \<longrightarrow>
            fst result = Inl (Error (''Download failed: Failed with exit code: '' @
                showCode (exit_code r) @ [CHR 0x0A] @ ''Stdout: '' @ stdout r @ [CHR 0x0A] @
                ''Stderr: '' @ stderr r))"
    using fail by (simp add: failureMessage_def)
  have d: "ConsoleError [''yt-dlp stderr:'', stderr r] \<in> set (trace (snd result))"
    if "exit_code r = Some 0" "stderr r \<noteq> []"
  proof -
    from that have "ConsoleError [''yt-dlp stderr:'', stderr r]
         \<in> set (trace (snd (runDownload ev args ?tmp w1)))"
      unfolding r_def by (rule runDownload_logs_stderr)
    with downloadVideo_trace_after_download [of ev url resolution startTime endTime ch cfg w]
    show ?thesis
      unfolding result_def args_def w1_def using set_mono_prefix by blast
  qed
  from a b c d show ?thesis by blast
qed

theorem download_succeeds_exactly_on_exit_zero_witness:
  "fst (downloadVideo (sampleEnv (Some 1) ''ERROR: bad url'' [] (Some 1))
          ''https://example.com/clip'' sampleConfig None None None None sampleWorld)
     = Inl (Error (''Download failed: Failed with exit code: 1'' @ [CHR 0x0A] @
                   ''Stdout: '' @ [CHR 0x0A] @ ''Stderr: ERROR: bad url''))
   \<and> ConsoleError [''yt-dlp stderr:'', ''WARNING: x'']
       \<in> set (trace (snd (downloadVideo (sampleEnv (Some 0) ''WARNING: x'' [''v.mp4''] (Some 0))
                 ''https://example.com/clip'' sampleConfig None None None None sampleWorld)))
   \<and> fst (downloadVideo (sampleEnv (Some 0) ''WARNING: x'' [''v.mp4''] (Some 0))
                 ''https://example.com/clip'' sampleConfig None None None None sampleWorld)
     = Inr (successMessage ''/dl'')"
proof -
  let ?cfg = sampleConfig and ?url = "''https://example.com/clip''"
  let ?bad = "sampleEnv (Some 1) ''ERROR: bad url'' [] (Some 1)"
  let ?good = "sampleEnv (Some 0) ''WARNING: x'' [''v.mp4''] (Some 0)"
  let ?w1 = "snd (ensureTempDir (tempDownloadDir ?cfg) sampleWorld)"
  let ?args = "\<lambda>ev. downloadArgs ?url (selectFormat ev ?url (resolutionOrDefault None)) None None None"
  have bad: "run ?bad (length (trace ?w1)) ''yt-dlp'' (?args ?bad) (Some (tempDownloadDir ?cfg)) (files ?w1)
      = \<lparr>exit_code = Some 1, stdout = [], stderr = ''ERROR: bad url'',
         files_after = [(''/dl'', Dir), (''/dl/temp_yt_dlp_downloads'', Dir)]\<rparr>"
    by (simp add: stage_defs platform_defs sample_defs)
  have good: "run ?good (length (trace ?w1)) ''yt-dlp'' (?args ?good) (Some (tempDownloadDir ?cfg)) (files ?w1)
      = \<lparr>exit_code = Some 0, stdout = [], stderr = ''WARNING: x'',
         files_after = [(''/dl'', Dir), (''/dl/temp_yt_dlp_downloads'', Dir),
                        (''/dl/temp_yt_dlp_downloads/v.mp4'', File)]\<rparr>"
    by (simp add: stage_defs platform_defs sample_defs)
  have ok: "fst (downloadVideo ?good ?url ?cfg None None None None sampleWorld)
     = Inr (successMessage ''/dl'')"
    by (simp add: stage_defs platform_defs format_defs sample_defs)
  from download_succeeds_exactly_on_exit_zero
         [where ev = "?bad" and url = "?url" and cfg = "?cfg" and resolution = None
            and startTime = None and endTime = None and ch = None and w = sampleWorld]
       download_succeeds_exactly_on_exit_zero
         [where ev = "?good" and url = "?url" and cfg = "?cfg" and resolution = None
            and startTime = None and endTime = None and ch = None and w = sampleWorld]
       ok
  show ?thesis
    unfolding bad good by (simp add: showCode_def showNat.simps)
qed

text \<open>
  C9, as the code has it. Every chapter selected by the filter (the literal \<open>all\<close> or an
  exact title match) is trimmed into the path that \<open>path.join\<close> makes of the staging
  directory and the name \<open><video title> - <chapter title>.mp4\<close>, in the order of the
  metadata: the extension is always \<open>mp4\<close>, whatever the container of the staged video.
  Chapters that are not selected get no output. When neither title contains a slash, that
  path is the file of this name directly inside the staging directory.
\<close>

theorem chapter_outputs_named_mp4:
  assumes "fst (extractChapters ev (tempDownloadDir cfg) vi c chs w) = Inr ()"
  shows "ffmpegOutputs (trace (snd (extractChapters ev (tempDownloadDir cfg) vi c chs w))) =
         ffmpegOutputs (trace w) @
           map (\<lambda>chap. path_join (tempDownloadDir cfg)
                         (video_title vi @ '' - '' @ title chap @ ''.mp4''))
             (filter (\<lambda>chap. c = ''all'' \<or> title chap = c) chs)
       \<and> (CHR ''/'' \<notin> set (video_title vi) \<and> CHR ''/'' \<notin> set (title chap) \<longrightarrow>
            path_join (tempDownloadDir cfg) (video_title vi @ '' - '' @ title chap @ ''.mp4'') =
            tempDownloadDir cfg @ ''/'' @ video_title vi @ '' - '' @ title chap @ ''.mp4'')"
proof
  from assms
  show "ffmpegOutputs (trace (snd (extractChapters ev (tempDownloadDir cfg) vi c chs w))) =
         ffmpegOutputs (trace w) @
           map (\<lambda>chap. path_join (tempDownloadDir cfg)
                         (video_title vi @ '' - '' @ title chap @ ''.mp4''))
             (filter (\<lambda>chap. c = ''all'' \<or> title chap = c) chs)"
    by (rule extractChapters_outputs)
next
  show "CHR ''/'' \<notin> set (video_title vi) \<and> CHR ''/'' \<notin> set (title chap) \<longrightarrow>
            path_join (tempDownloadDir cfg) (video_title vi @ '' - '' @ title chap @ ''.mp4'') =
            tempDownloadDir cfg @ ''/'' @ video_title vi @ '' - '' @ title chap @ ''.mp4''"
    using tempDownloadDir_child [OF chapter_file_name_plain, of "video_title vi" "title chap" cfg]
    by simp
qed

theorem chapter_outputs_named_mp4_witness:
  "fst (extractChapters (sampleEnv (Some 0) [] [''video.webm''] (Some 0))
          (tempDownloadDir sampleConfig) sampleInfo ''all'' (chapters sampleInfo)
          \<lparr>files = [(''/dl'', Dir), (''/dl/temp_yt_dlp_downloads'', Dir),
                    (''/dl/temp_yt_dlp_downloads/video.webm'', File)],
           trace = []\<rparr>) = Inr ()
   \<and> ffmpegOutputs (trace (snd (extractChapters (sampleEnv (Some 0) [] [''video.webm''] (Some 0))
          (tempDownloadDir sampleConfig) sampleInfo ''all'' (chapters sampleInfo)
          \<lparr>files = [(''/dl'', Dir), (''/dl/temp_yt_dlp_downloads'', Dir),
                    (''/dl/temp_yt_dlp_downloads/video.webm'', File)],
           trace = []\<rparr>)))
     = [''/dl/temp_yt_dlp_downloads/Talk - Intro.mp4'', ''/dl/temp_yt_dlp_downloads/Talk - Main.mp4'']
   \<and> path_join (tempDownloadDir sampleConfig) ''Talk - Intro.mp4''
     = tempDownloadDir sampleConfig @ ''/Talk - Intro.mp4''"
proof -
  let ?ev = "sampleEnv (Some 0) [] [''video.webm''] (Some 0)"
  let ?w = "\<lparr>files = [(''/dl'', Dir), (''/dl/temp_yt_dlp_downloads'', Dir),
                    (''/dl/temp_yt_dlp_downloads/video.webm'', File)],
           trace = []\<rparr>"
  let ?intro = "\<lparr>title = ''Intro'', start_time = ''0'', end_time = ''30''\<rparr>"
  have ok: "fst (extractChapters ?ev (tempDownloadDir sampleConfig) sampleInfo ''all''
                  (chapters sampleInfo) ?w) = Inr ()"
    by (simp add: stage_defs platform_defs sample_defs ffmpegArgs_def)
  have names: "map (\<lambda>chap. path_join (tempDownloadDir sampleConfig)
                     (video_title sampleInfo @ '' - '' @ title chap @ ''.mp4''))
                 (filter (\<lambda>chap. ''all'' = ''all'' \<or> title chap = ''all'') (chapters sampleInfo))
        = [''/dl/temp_yt_dlp_downloads/Talk - Intro.mp4'',
           ''/dl/temp_yt_dlp_downloads/Talk - Main.mp4'']"
    by (simp add: platform_defs sample_defs)
  have plain: "CHR ''/'' \<notin> set (video_title sampleInfo) \<and> CHR ''/'' \<notin> set (title ?intro)"
    by (simp add: sampleInfo_def)
  have vt: "video_title sampleInfo = ''Talk''"
    by (simp add: sampleInfo_def)
  from chapter_outputs_named_mp4 [OF ok, of ?intro] ok names plain show ?thesis
    by (simp add: vt)
qed

text \<open>
  C9, as the claim states it, fails when the staged video is a \<open>webm\<close> file: the chapter
  is still written to a name ending in \<open>.mp4\<close>.
\<close>

theorem chapter_output_extension_counterexample:
  "trace (snd (downloadVideo (sampleEnv (Some 0) [] [''video.webm''] (Some 0))
                 ''https://www.youtube.com/watch?v=jNQXAC9IVRw'' sampleConfig None None None
                 (Some ''Intro'') sampleWorld))
   = [Mkdir ''/dl/temp_yt_dlp_downloads'',
      Spawn ''yt-dlp''
        [''--progress'', ''--newline'', ''--no-mtime'',
         ''https://www.youtube.com/watch?v=jNQXAC9IVRw'']
        (Some ''/dl/temp_yt_dlp_downloads''),
      Spawn ''yt-dlp'' [''--print-json'', ''https://www.youtube.com/watch?v=jNQXAC9IVRw''] None,
      Spawn ''ffmpeg''
        [''-i'', ''/dl/temp_yt_dlp_downloads/video.webm'', ''-ss'', ''0'', ''-to'', ''30'',
         ''-c'', ''copy'', ''/dl/temp_yt_dlp_downloads/Talk - Intro.mp4'']
        None,
      Rename ''/dl/temp_yt_dlp_downloads/Talk - Intro.mp4'' ''/dl/Talk - Intro.mp4'',
      Rename ''/dl/temp_yt_dlp_downloads/video.webm'' ''/dl/video.webm'',
      Rm ''/dl/temp_yt_dlp_downloads'']
   \<and> \<not> endsWith ''/dl/temp_yt_dlp_downloads/Talk - Intro.mp4'' ''.webm''"
  by (simp add: stage_defs platform_defs format_defs sample_defs ffmpegArgs_def successMessage_def)

text \<open>
  C10. When the filter selects a chapter and the staging directory holds no file ending in
  \<open>.mp4\<close> or \<open>.webm\<close>, the candidate path is the staging directory joined with the
  empty string, which is the staging-directory path itself and is not empty; the step
  does not fail, and the trimming tool is started with the staging directory as its
  input. In no call at all does downloadVideo end with the error of that guard.
\<close>

theorem full_video_guard_never_fires:
  assumes "c = ''all'' \<or> title chap = c"
      and "readdirSync (tempDownloadDir cfg) (files w) = Inr names"
      and "find isVideoFile names = None"
  shows "path_join (tempDownloadDir cfg) [] = tempDownloadDir cfg
       \<and> tempDownloadDir cfg \<noteq> []
       \<and> fst (extractChapter ev (tempDownloadDir cfg) vi c chap w) = Inr ()
       \<and> prefix
           (trace w @
            [Spawn ''ffmpeg''
               [''-i'', tempDownloadDir cfg, ''-ss'', start_time chap, ''-to'', end_time chap,
                ''-c'', ''copy'',
                path_join (tempDownloadDir cfg) (video_title vi @ '' - '' @ title chap @ ''.mp4'')]
               None])
           (trace (snd (extractChapter ev (tempDownloadDir cfg) vi c chap w)))
       \<and> fst (downloadVideo ev' url' cfg' resolution' startTime' endTime' chapter' w')
           \<noteq> Inl fullVideoNotFound"
proof -
  have same: "path_join (tempDownloadDir cfg) [] = tempDownloadDir cfg"
    by (simp add: tempDownloadDir_def path_join_empty_right)
  have ne: "tempDownloadDir cfg \<noteq> []"
    by (simp add: tempDownloadDir_def path_join_nonempty)
  from extractChapter_selected(2) [OF assms(1,2), of ev vi] assms(3) same
  have "prefix
           (trace w @
            [Spawn ''ffmpeg''
               [''-i'', tempDownloadDir cfg, ''-ss'', start_time chap, ''-to'', end_time chap,
                ''-c'', ''copy'',
                path_join (tempDownloadDir cfg) (video_title vi @ '' - '' @ title chap @ ''.mp4'')]
               None])
           (trace (snd (extractChapter ev (tempDownloadDir cfg) vi c chap w)))"
    by (auto simp: ffmpegArgs_def prefix_def)
  with same ne extractChapter_selected(1) [OF assms(1,2), of ev vi]
    downloadVideo_never_fullVideoNotFound [of ev' url' cfg' resolution' startTime' endTime' chapter' w']
  show ?thesis by simp
qed

theorem full_video_guard_never_fires_witness:
  "readdirSync (tempDownloadDir sampleConfig)
     [(''/dl'', Dir), (''/dl/temp_yt_dlp_downloads'', Dir),
      (''/dl/temp_yt_dlp_downloads/video.mkv'', File)] = Inr [''video.mkv'']
   \<and> find isVideoFile [''video.mkv''] = None
   \<and> extractChapter (sampleEnv (Some 0) [] [''video.mkv''] (Some 0)) (tempDownloadDir sampleConfig)
       sampleInfo ''Main'' \<lparr>title = ''Main'', start_time = ''30'', end_time = ''600''\<rparr>
       \<lparr>files = [(''/dl'', Dir), (''/dl/temp_yt_dlp_downloads'', Dir),
                 (''/dl/temp_yt_dlp_downloads/video.mkv'', File)],
        trace = []\<rparr>
     = (Inr (),
        \<lparr>files = [(''/dl'', Dir), (''/dl/temp_yt_dlp_downloads'', Dir),
                  (''/dl/temp_yt_dlp_downloads/video.mkv'', File),
                  (''/dl/temp_yt_dlp_downloads/Talk - Main.mp4'', File)],
         trace = [Spawn ''ffmpeg''
                    [''-i'', ''/dl/temp_yt_dlp_downloads'', ''-ss'', ''30'', ''-to'', ''600'',
                     ''-c'', ''copy'', ''/dl/temp_yt_dlp_downloads/Talk - Main.mp4'']
                    None]\<rparr>)"
proof -
  let ?w = "\<lparr>files = [(''/dl'', Dir), (''/dl/temp_yt_dlp_downloads'', Dir),
                 (''/dl/temp_yt_dlp_downloads/video.mkv'', File)],
        trace = []\<rparr>"
  let ?chap = "\<lparr>title = ''Main'', start_time = ''30'', end_time = ''600''\<rparr>"
  have sel: "''Main'' = ''all'' \<or> title ?chap = ''Main''" by simp
  have rd: "readdirSync (tempDownloadDir sampleConfig) (files ?w) = Inr [''video.mkv'']"
    by (simp add: platform_defs sample_defs)
  have nf: "find isVideoFile [''video.mkv''] = None"
    by (simp add: isVideoFile_def endsWith_def)
  have run: "extractChapter (sampleEnv (Some 0) [] [''video.mkv''] (Some 0))
       (tempDownloadDir sampleConfig) sampleInfo ''Main'' ?chap ?w
     = (Inr (),
        \<lparr>files = [(''/dl'', Dir), (''/dl/temp_yt_dlp_downloads'', Dir),
                  (''/dl/temp_yt_dlp_downloads/video.mkv'', File),
                  (''/dl/temp_yt_dlp_downloads/Talk - Main.mp4'', File)],
         trace = [Spawn ''ffmpeg''
                    [''-i'', ''/dl/temp_yt_dlp_downloads'', ''-ss'', ''30'', ''-to'', ''600'',
                     ''-c'', ''copy'', ''/dl/temp_yt_dlp_downloads/Talk - Main.mp4'']
                    None]\<rparr>)"
    by (simp add: stage_defs platform_defs sample_defs ffmpegArgs_def)
  from full_video_guard_never_fires [OF sel rd nf] rd nf run show ?thesis by simp
qed

end
